theory Spec2Isabelle
  imports Main "HOL-Library.Sublist" "HOL-Library.Char_ord" "HOL-Library.List_Lexorder"
begin

section \<open>Python string operations used by the pipeline\<close>

text \<open>
  Python's \<^verbatim>\<open>str\<close> is modelled as \<^typ>\<open>string\<close>. The operations below are the
  ones the three stages call: \<^verbatim>\<open>sub in s\<close>, \<^verbatim>\<open>s.replace(old, new[, count])\<close>,
  \<^verbatim>\<open>s.split(sep[, maxsplit])\<close> with a one-character separator, \<^verbatim>\<open>sep.join(xs)\<close>,
  \<^verbatim>\<open>s.endswith(suffix)\<close> and \<^verbatim>\<open>str(n)\<close> of an integer. A \<^typ>\<open>string\<close> is a
  list of bytes; read as the UTF-8 encoding of the Python string, search, replacement and
  splitting at the ASCII markers used here, and the lexical order of \<^verbatim>\<open>sorted\<close>, agree
  with Python's on code points.
\<close>

fun str_find :: "string \<Rightarrow> string \<Rightarrow> nat option" where
  "str_find sub [] = (if sub = [] then Some 0 else None)"
| "str_find sub (c # cs) =
     (if prefix sub (c # cs) then Some 0 else map_option Suc (str_find sub cs))"

definition str_in :: "string \<Rightarrow> string \<Rightarrow> bool" where
  "str_in sub s = (str_find sub s \<noteq> None)"

fun replace_empty :: "string \<Rightarrow> int \<Rightarrow> string \<Rightarrow> string" where
  "replace_empty new count [] = (if count = 0 then [] else new)"
| "replace_empty new count (c # cs) =
     (if count = 0 then c # cs else new @ c # replace_empty new (count - 1) cs)"

function replace_scan :: "string \<Rightarrow> string \<Rightarrow> int \<Rightarrow> string \<Rightarrow> string" where
  "replace_scan old new count [] = []"
| "replace_scan old new count (c # cs) =
     (if count = 0 \<or> old = [] then c # cs
      else if prefix old (c # cs)
           then new @ replace_scan old new (count - 1) (drop (length old) (c # cs))
           else c # replace_scan old new count cs)"
  by pat_completeness auto
termination
  by (relation "measure (\<lambda>(old, new, count, s). length s)") (auto simp: neq_Nil_conv)

definition str_replace :: "string \<Rightarrow> string \<Rightarrow> string \<Rightarrow> int \<Rightarrow> string" where
  \<comment> \<open>\<^verbatim>\<open>s.replace(old, new, count)\<close>; a negative count (Python's default -1) replaces all.\<close>
  "str_replace s old new count =
     (if old = [] then replace_empty new count s else replace_scan old new count s)"

fun str_split :: "string \<Rightarrow> char \<Rightarrow> string list" where
  "str_split [] sep = [[]]"
| "str_split (c # cs) sep =
     (if c = sep then [] # str_split cs sep
      else (let ws = str_split cs sep in (c # hd ws) # tl ws))"

fun str_split_max :: "string \<Rightarrow> char \<Rightarrow> nat \<Rightarrow> string list" where
  "str_split_max [] sep n = [[]]"
| "str_split_max (c # cs) sep n =
     (if n = 0 then [c # cs]
      else if c = sep then [] # str_split_max cs sep (n - 1)
      else (let ws = str_split_max cs sep n in (c # hd ws) # tl ws))"

fun str_join :: "string \<Rightarrow> string list \<Rightarrow> string" where
  "str_join sep [] = []"
| "str_join sep [x] = x"
| "str_join sep (x # y # ys) = x @ sep @ str_join sep (y # ys)"

definition str_endswith :: "string \<Rightarrow> string \<Rightarrow> bool" where
  "str_endswith s suf = suffix suf s"

definition digit_char :: "nat \<Rightarrow> char" where
  "digit_char d = ''0123456789'' ! d"

function str_nat :: "nat \<Rightarrow> string" where
  "str_nat n = (if n < 10 then [digit_char n] else str_nat (n div 10) @ [digit_char (n mod 10)])"
  by pat_completeness auto
termination
  by (relation "measure (\<lambda>n. n)") auto

declare str_nat.simps [simp del]

definition str_int :: "int \<Rightarrow> string" where
  "str_int i = (if i < 0 then CHR ''-'' # str_nat (nat (- i)) else str_nat (nat i))"

definition dq :: char where
  "dq = CHR 0x22"

definition sq :: char where
  "sq = CHR 0x27"

section \<open>Errors, configuration and the outside world\<close>

datatype error =
    S3Error string
  | FFMpegError string
  | ManifestGenerationError string
  | CDNInvalidationError string
  | ConfigurationError string
  | IndexError string
  | KeyError string
  | ValueError string
  | JSONDecodeError string
  | UnicodeDecodeError string
  | OSError string
  | ParamValidationError string

fun err_str :: "error \<Rightarrow> string" where
  "err_str (S3Error m) = m"
| "err_str (FFMpegError m) = m"
| "err_str (ManifestGenerationError m) = m"
| "err_str (CDNInvalidationError m) = m"
| "err_str (ConfigurationError m) = m"
| "err_str (IndexError m) = m"
| "err_str (KeyError m) = m"
| "err_str (ValueError m) = m"
| "err_str (JSONDecodeError m) = m"
| "err_str (UnicodeDecodeError m) = m"
| "err_str (OSError m) = m"
| "err_str (ParamValidationError m) = m"


record config =
  AWS_REGION :: string
  AWS_S3_BUCKET :: "string option"
  AWS_CLOUDFRONT_DISTRIBUTION_ID :: "string option"
  THUMBNAIL_INTERVAL :: int
  THUMBNAIL_WIDTH :: int
  THUMBNAIL_HEIGHT :: int
  THUMBNAIL_FORMAT :: string
  THUMBNAIL_BIG_WIDTH :: int
  THUMBNAIL_BIG_HEIGHT :: int
  THUMBNAIL_SMALL_BANDWIDTH :: int
  THUMBNAIL_BIG_BANDWIDTH :: int
  THUMBNAILS_FOLDER :: string
  SQS_MANIFEST_QUEUE_URL :: "string option"
  SQS_CACHE_INVALIDATION_QUEUE_URL :: "string option"

definition THUMBNAIL_SMALL_RESOLUTION :: "config \<Rightarrow> string" where
  "THUMBNAIL_SMALL_RESOLUTION cfg =
     str_int (THUMBNAIL_WIDTH cfg) @ ''x'' @ str_int (THUMBNAIL_HEIGHT cfg)"

definition THUMBNAIL_BIG_RESOLUTION :: "config \<Rightarrow> string" where
  "THUMBNAIL_BIG_RESOLUTION cfg =
     str_int (THUMBNAIL_BIG_WIDTH cfg) @ ''x'' @ str_int (THUMBNAIL_BIG_HEIGHT cfg)"

definition THUMBNAIL_SMALL_SUFFIX :: string where
  "THUMBNAIL_SMALL_SUFFIX = ''_small''"

definition THUMBNAIL_BIG_SUFFIX :: string where
  "THUMBNAIL_BIG_SUFFIX = ''_big''"

definition default_config :: config where
  \<comment> \<open>the values \<^verbatim>\<open>Config\<close> takes when no environment variable is set\<close>
  "default_config = \<lparr>
     AWS_REGION = ''us-east-1'',
     AWS_S3_BUCKET = None,
     AWS_CLOUDFRONT_DISTRIBUTION_ID = None,
     THUMBNAIL_INTERVAL = 10,
     THUMBNAIL_WIDTH = 320,
     THUMBNAIL_HEIGHT = 180,
     THUMBNAIL_FORMAT = ''jpg'',
     THUMBNAIL_BIG_WIDTH = 640,
     THUMBNAIL_BIG_HEIGHT = 360,
     THUMBNAIL_SMALL_BANDWIDTH = 16460,
     THUMBNAIL_BIG_BANDWIDTH = 32920,
     THUMBNAILS_FOLDER = ''thumbs'',
     SQS_MANIFEST_QUEUE_URL = None,
     SQS_CACHE_INVALIDATION_QUEUE_URL = None \<rparr>"

text \<open>
  The world a stage runs against: the objects in storage (keyed by bucket and key), the
  chronological trace of service calls the stage has made, and the log lines emitted
  (level and message; the keyword arguments of the structured logger are left out).
\<close>

record s3_object =
  obj_body :: string
  obj_content_type :: string
  obj_public :: bool

text \<open>
  The JSON object carried by a queue message: the keys the stages read, each absent
  (\<^const>\<open>None\<close>) or present.
\<close>

record message =
  msg_media_key :: "string option"
  msg_media_path :: "string option"
  msg_hls_url :: "string option"
  msg_small_thumbnails :: "string list option"
  msg_big_thumbnails :: "string list option"
  msg_paths_to_invalidate :: "string list option"

datatype api_call =
    S3GetObject string string
  | S3PutObject string string string string bool
  | S3DownloadFile string string string
  | S3UploadFile string string string string bool
  | RunProcess "string list"
  | CFCreateInvalidation string "string list"
  | SQSSendMessage string message
  | SQSDeleteMessage "string option" string

record world =
  objects :: "string \<times> string \<Rightarrow> s3_object option"
  calls :: "api_call list"
  logs :: "(string \<times> string) list"

text \<open>
  What the stages cannot decide themselves is a parameter: whether the runtime hands out
  a temporary directory (its path, or the message of the \<^verbatim>\<open>OSError\<close>) and whether
  removing it afterwards fails, the outcome of the external frame sampler for a command
  line (it could not be started, or it exited with a return code, its captured standard
  error and the files it left in the output directory), whether a byte string decodes as
  UTF-8 (the text, or the message of the \<^verbatim>\<open>UnicodeDecodeError\<close>), and the client errors
  with which the storage, CDN and queue services answer a request.
\<close>

datatype proc_outcome =
    SpawnError string
  | Exited int string "(string \<times> string) list"

record env =
  mkdtemp :: "string + string"
  cleanup_error :: "string \<Rightarrow> string option"
  run_process :: "string list \<Rightarrow> proc_outcome"
  decode_utf8 :: "string \<Rightarrow> string + string"
  s3_upload_error :: "string \<Rightarrow> string \<Rightarrow> string option"
  cf_create_invalidation :: "string \<Rightarrow> string list \<Rightarrow> string + string"
  sqs_send_error :: "string \<Rightarrow> string option"
  sqs_delete_error :: "string \<Rightarrow> string \<Rightarrow> string option"

definition log_info :: "string \<Rightarrow> world \<Rightarrow> world" where
  "log_info msg w = w\<lparr>logs := logs w @ [(''INFO'', msg)]\<rparr>"

definition log_error :: "string \<Rightarrow> world \<Rightarrow> world" where
  "log_error msg w = w\<lparr>logs := logs w @ [(''ERROR'', msg)]\<rparr>"

definition log_warning :: "string \<Rightarrow> world \<Rightarrow> world" where
  "log_warning msg w = w\<lparr>logs := logs w @ [(''WARNING'', msg)]\<rparr>"

definition log_debug :: "string \<Rightarrow> world \<Rightarrow> world" where
  "log_debug msg w = w\<lparr>logs := logs w @ [(''DEBUG'', msg)]\<rparr>"

subsection \<open>S3Helper\<close>

text \<open>
  \<^verbatim>\<open>get_object\<close> and \<^verbatim>\<open>download_file\<close> raise \<^verbatim>\<open>S3Error\<close> when the service answers
  with a client error; in the model that happens exactly when the key is absent.
  \<^verbatim>\<open>put_object\<close> stores the object, with the public-read ACL when \<^verbatim>\<open>public\<close> is set,
  and is taken to succeed. \<^verbatim>\<open>upload_file\<close>, the CDN and the queue fail when the
  environment says so.
\<close>

definition no_such_key :: string where
  "no_such_key = ''An error occurred (NoSuchKey) when calling the GetObject operation: The specified key does not exist.''"

definition not_found :: string where
  "not_found = ''An error occurred (404) when calling the HeadObject operation: Not Found''"

definition s3_get_object :: "string \<Rightarrow> string \<Rightarrow> world \<Rightarrow> (error + string) \<times> world" where
  "s3_get_object bucket key w =
     (let w1 = w\<lparr>calls := calls w @ [S3GetObject bucket key]\<rparr>
      in case objects w (bucket, key) of
           None \<Rightarrow> (Inl (S3Error (''Error getting object '' @ bucket @ ''/'' @ key @ '': '' @ no_such_key)), w1)
         | Some obj \<Rightarrow> (Inr (obj_body obj), w1))"

definition s3_put_object ::
  "string \<Rightarrow> string \<Rightarrow> string \<Rightarrow> string \<Rightarrow> bool \<Rightarrow> world \<Rightarrow> (error + unit) \<times> world" where
  "s3_put_object bucket key body content_type public w =
     (let w1 = log_info ''Putting object to S3'' w
      in (Inr (),
          w1\<lparr>objects := (objects w1)((bucket, key) \<mapsto>
                 \<lparr>obj_body = body, obj_content_type = content_type, obj_public = public\<rparr>),
             calls := calls w1 @ [S3PutObject bucket key body content_type public]\<rparr>))"

section \<open>Manifest Composer (manifest\_updater/updater.py)\<close>

definition playlist_key_of :: "string \<Rightarrow> error + string" where
  \<comment> \<open>\<^verbatim>\<open>hls_url.replace("s3://", "").split("/", 1)[1]\<close>\<close>
  "playlist_key_of hls_url =
     (let parts = str_split_max (str_replace hls_url ''s3://'' [] (- 1)) CHR ''/'' 1
      in if 1 < length parts then Inr (parts ! 1)
         else Inl (IndexError ''list index out of range''))"

definition image_stream_line :: "string \<Rightarrow> string \<Rightarrow> int \<Rightarrow> string" where
  "image_stream_line manifest_filename resolution bandwidth =
     ''#EXT-X-IMAGE-STREAM-INF:BANDWIDTH='' @ str_int bandwidth @ '',RESOLUTION='' @ resolution
       @ '',CODECS='' @ [dq] @ ''jpeg'' @ [dq] @ '',URI='' @ [dq] @ manifest_filename @ [dq]
       @ ''\<newline>''"

definition updated_content :: "string \<Rightarrow> string \<Rightarrow> string" where
  \<comment> \<open>the splice of \<^verbatim>\<open>_update_main_playlist\<close>, lines 183-196\<close>
  "updated_content playlist_content line =
     (if str_in ''#EXT-X-STREAM-INF'' playlist_content
      then str_replace playlist_content ''#EXT-X-STREAM-INF'' (line @ ''#EXT-X-STREAM-INF'') 1
      else str_replace playlist_content ''#EXT-X-ENDLIST'' (line @ ''#EXT-X-ENDLIST'') (- 1))"

definition update_main_playlist_try ::
  "string \<Rightarrow> string \<Rightarrow> string \<Rightarrow> string \<Rightarrow> string \<Rightarrow> int \<Rightarrow> world \<Rightarrow> (error + unit) \<times> world" where
  "update_main_playlist_try bucket media_path hls_url manifest_filename resolution bandwidth w =
     (case playlist_key_of hls_url of
        Inl e \<Rightarrow> (Inl e, w)
      | Inr playlist_key \<Rightarrow>
          (case s3_get_object bucket playlist_key w of
             (Inl e, w1) \<Rightarrow> (Inl e, w1)
           | (Inr playlist_content, w1) \<Rightarrow>
               if str_in manifest_filename playlist_content
               then (Inr (), log_info ''Playlist already updated'' w1)
               else
                 (case s3_put_object bucket playlist_key
                         (updated_content playlist_content
                            (image_stream_line manifest_filename resolution bandwidth))
                         ''application/vnd.apple.mpegurl'' True w1 of
                    (Inl e, w2) \<Rightarrow> (Inl e, w2)
                  | (Inr u, w2) \<Rightarrow> (Inr (), log_info ''Playlist updated'' w2))))"

definition update_main_playlist ::
  "string \<Rightarrow> string \<Rightarrow> string \<Rightarrow> string \<Rightarrow> string \<Rightarrow> int \<Rightarrow> world \<Rightarrow> (error + unit) \<times> world" where
  "update_main_playlist bucket media_path hls_url manifest_filename resolution bandwidth w =
     (case update_main_playlist_try bucket media_path hls_url manifest_filename resolution bandwidth w of
        (Inl e, w1) \<Rightarrow> (Inl e, log_error ''Playlist update failed'' w1)
      | (Inr u, w1) \<Rightarrow> (Inr u, w1))"

definition thumbnail_name_of :: "string \<Rightarrow> string" where
  \<comment> \<open>\<^verbatim>\<open>thumbnail_key.split("/")[-1]\<close>; the split of a string is never empty\<close>
  "thumbnail_name_of thumbnail_key = last (str_split thumbnail_key CHR ''/'')"

definition manifest_lines :: "config \<Rightarrow> string \<Rightarrow> string list \<Rightarrow> string \<Rightarrow> string list" where
  \<comment> \<open>lines 94-118 of \<^verbatim>\<open>_create_manifest\<close>; the \<^verbatim>\<open>for\<close> loop is the \<^const>\<open>fold\<close>\<close>
  "manifest_lines cfg media_path thumbnails resolution =
     (let relative_path = (if str_in ''hls/'' media_path then ''../thumbs/'' else ''thumbs/'');
          manifest_lines0 =
            [''#EXTM3U'',
             ''#EXT-X-TARGETDURATION:'' @ str_int (THUMBNAIL_INTERVAL cfg),
             ''#EXT-X-VERSION:7'',
             ''#EXT-X-MEDIA-SEQUENCE:1'',
             ''#EXT-X-PLAYLIST-TYPE:VOD'',
             ''#EXT-X-IMAGES-ONLY'',
             []];
          manifest_lines1 =
            fold (\<lambda>thumbnail_key ls.
                    (let thumbnail_name = thumbnail_name_of thumbnail_key;
                         ls1 = ls @ [''#EXTINF:'' @ str_int (THUMBNAIL_INTERVAL cfg) @ ''.000,''];
                         ls2 = ls1 @ [''#EXT-X-TILES:RESOLUTION='' @ resolution @ '',LAYOUT=1x1,DURATION=''
                                        @ str_int (THUMBNAIL_INTERVAL cfg) @ ''.000''];
                         ls3 = ls2 @ [relative_path @ thumbnail_name]
                     in ls3 @ [[]]))
                 thumbnails manifest_lines0
      in manifest_lines1 @ [''#EXT-X-ENDLIST''])"

definition manifest_content :: "config \<Rightarrow> string \<Rightarrow> string list \<Rightarrow> string \<Rightarrow> string" where
  "manifest_content cfg media_path thumbnails resolution =
     str_join ''\<newline>'' (manifest_lines cfg media_path thumbnails resolution)"

definition manifest_filename_of :: "string \<Rightarrow> string" where
  "manifest_filename_of resolution = ''thumbs_'' @ resolution @ ''.m3u8''"

definition create_manifest_try ::
  "config \<Rightarrow> string \<Rightarrow> string \<Rightarrow> string \<Rightarrow> string list \<Rightarrow> string \<Rightarrow> int \<Rightarrow> string \<Rightarrow> world
     \<Rightarrow> (error + string) \<times> world" where
  "create_manifest_try cfg bucket media_path hls_url thumbnails resolution bandwidth sfx w =
     (let content = manifest_content cfg media_path thumbnails resolution;
          manifest_filename = manifest_filename_of resolution;
          manifest_key = media_path @ manifest_filename
      in case s3_put_object bucket manifest_key content ''application/vnd.apple.mpegurl'' True w of
           (Inl e, w1) \<Rightarrow> (Inl e, w1)
         | (Inr u, w1) \<Rightarrow>
             (case update_main_playlist bucket media_path hls_url manifest_filename resolution bandwidth w1 of
                (Inl e, w2) \<Rightarrow> (Inl e, w2)
              | (Inr u', w2) \<Rightarrow>
                  (Inr (''Created '' @ manifest_filename @ '' for '' @ resolution),
                   log_info ''Manifest created'' w2)))"

definition create_manifest ::
  "config \<Rightarrow> string \<Rightarrow> string \<Rightarrow> string \<Rightarrow> string list \<Rightarrow> string \<Rightarrow> int \<Rightarrow> string \<Rightarrow> world
     \<Rightarrow> (error + string) \<times> world" where
  "create_manifest cfg bucket media_path hls_url thumbnails resolution bandwidth sfx w =
     (case create_manifest_try cfg bucket media_path hls_url thumbnails resolution bandwidth sfx w of
        (Inl e, w1) \<Rightarrow> (Inl e, log_error ''Manifest creation failed'' w1)
      | (Inr r, w1) \<Rightarrow> (Inr r, w1))"

definition create_manifests_try ::
  "config \<Rightarrow> string \<Rightarrow> string \<Rightarrow> string \<Rightarrow> string list \<Rightarrow> string list \<Rightarrow> world
     \<Rightarrow> (error + (string \<rightharpoonup> string)) \<times> world" where
  "create_manifests_try cfg bucket media_path hls_url small_thumbnails big_thumbnails w =
     (let w0 = log_info ''Creating manifests'' w;
          results = Map.empty;
          step1 =
            (if small_thumbnails \<noteq> []
             then (case create_manifest cfg bucket media_path hls_url small_thumbnails
                          (THUMBNAIL_SMALL_RESOLUTION cfg) (THUMBNAIL_SMALL_BANDWIDTH cfg) ''small'' w0 of
                     (Inl e, w1) \<Rightarrow> (Inl e, w1)
                   | (Inr r, w1) \<Rightarrow> (Inr (results(''small'' \<mapsto> r)), w1))
             else (Inr results, w0))
      in case step1 of
           (Inl e, w1) \<Rightarrow> (Inl e, w1)
         | (Inr results1, w1) \<Rightarrow>
             (let step2 =
                (if big_thumbnails \<noteq> []
                 then (case create_manifest cfg bucket media_path hls_url big_thumbnails
                              (THUMBNAIL_BIG_RESOLUTION cfg) (THUMBNAIL_BIG_BANDWIDTH cfg) ''big'' w1 of
                         (Inl e, w2) \<Rightarrow> (Inl e, w2)
                       | (Inr r, w2) \<Rightarrow> (Inr (results1(''big'' \<mapsto> r)), w2))
                 else (Inr results1, w1))
              in case step2 of
                   (Inl e, w2) \<Rightarrow> (Inl e, w2)
                 | (Inr results2, w2) \<Rightarrow> (Inr results2, log_info ''Manifests created successfully'' w2)))"

definition create_manifests_and_update_playlist ::
  "config \<Rightarrow> string \<Rightarrow> string \<Rightarrow> string \<Rightarrow> string list \<Rightarrow> string list \<Rightarrow> world
     \<Rightarrow> (error + (string \<rightharpoonup> string)) \<times> world" where
  "create_manifests_and_update_playlist cfg bucket media_path hls_url small_thumbnails big_thumbnails w =
     (case create_manifests_try cfg bucket media_path hls_url small_thumbnails big_thumbnails w of
        (Inl e, w1) \<Rightarrow>
          (Inl (ManifestGenerationError
                  (''Failed to create manifests for '' @ media_path @ '': '' @ err_str e)),
           log_error ''Manifest creation failed'' w1)
      | (Inr results, w1) \<Rightarrow> (Inr results, w1))"

section \<open>Cache Invalidator (cache\_invalidator/invalidator.py)\<close>

definition truthy :: "string option \<Rightarrow> bool" where
  \<comment> \<open>Python's truth value of an \<^verbatim>\<open>Optional[str]\<close>\<close>
  "truthy x = (case x of None \<Rightarrow> False | Some s \<Rightarrow> s \<noteq> [])"

definition py_or :: "string option \<Rightarrow> string option \<Rightarrow> string option" where
  "py_or a b = (if truthy a then a else b)"

definition cloudfront_invalidate_paths ::
  "env \<Rightarrow> string \<Rightarrow> string list \<Rightarrow> world \<Rightarrow> (error + string option) \<times> world" where
  "cloudfront_invalidate_paths en distribution_id paths w =
     (if paths = []
      then (Inr None, log_warning ''No paths provided for CloudFront invalidation'' w)
      else
        (let w1 = log_info ''Creating CloudFront invalidation'' w;
             w2 = w1\<lparr>calls := calls w1 @ [CFCreateInvalidation distribution_id paths]\<rparr>
         in case cf_create_invalidation en distribution_id paths of
              Inl m \<Rightarrow> (Inl (CDNInvalidationError (''Error invalidating CloudFront: '' @ m)), w2)
            | Inr invalidation_id \<Rightarrow>
                (Inr (Some invalidation_id), log_info ''CloudFront invalidation created'' w2)))"

definition invalidate_cache_try ::
  "env \<Rightarrow> config \<Rightarrow> string list \<Rightarrow> string option \<Rightarrow> world \<Rightarrow> (error + string option) \<times> world" where
  "invalidate_cache_try en cfg paths distribution_id w =
     (let dist_id = py_or distribution_id (AWS_CLOUDFRONT_DISTRIBUTION_ID cfg)
      in case dist_id of
           None \<Rightarrow> (Inl (CDNInvalidationError ''CloudFront distribution ID not configured''), w)
         | Some d \<Rightarrow>
             if d = [] then (Inl (CDNInvalidationError ''CloudFront distribution ID not configured''), w)
             else if paths = []
             then (Inr None, log_warning ''No paths provided for invalidation'' w)
             else
               (case cloudfront_invalidate_paths en d paths (log_info ''Invalidating CloudFront cache'' w) of
                  (Inl e, w1) \<Rightarrow> (Inl e, w1)
                | (Inr invalidation_id, w1) \<Rightarrow>
                    (Inr invalidation_id, log_info ''Cache invalidation completed'' w1)))"

definition invalidate_cache ::
  "env \<Rightarrow> config \<Rightarrow> string list \<Rightarrow> string option \<Rightarrow> world \<Rightarrow> (error + string option) \<times> world" where
  "invalidate_cache en cfg paths distribution_id w =
     (case invalidate_cache_try en cfg paths distribution_id w of
        (Inl e, w1) \<Rightarrow>
          (Inl (CDNInvalidationError (''Failed to invalidate cache: '' @ err_str e)),
           log_error ''Cache invalidation failed'' w1)
      | (Inr r, w1) \<Rightarrow> (Inr r, w1))"

section \<open>Thumbnail Extractor (trick\_play\_generator/generator.py)\<close>

definition os_path_join :: "string \<Rightarrow> string \<Rightarrow> string" where
  "os_path_join a b =
     (if prefix ''/'' b then b
      else if a = [] \<or> suffix ''/'' a then a @ b
      else a @ ''/'' @ b)"

definition s3_download_file :: "string \<Rightarrow> string \<Rightarrow> string \<Rightarrow> world \<Rightarrow> (error + unit) \<times> world" where
  "s3_download_file bucket key file_path w =
     (let w1 = log_info ''Downloading S3 file'' w;
          w2 = w1\<lparr>calls := calls w1 @ [S3DownloadFile bucket key file_path]\<rparr>
      in case objects w (bucket, key) of
           None \<Rightarrow> (Inl (S3Error (''Error downloading '' @ bucket @ ''/'' @ key @ '': '' @ not_found)), w2)
         | Some obj \<Rightarrow> (Inr (), w2))"

definition s3_upload_file ::
  "env \<Rightarrow> string \<Rightarrow> string \<Rightarrow> string \<Rightarrow> string \<Rightarrow> string \<Rightarrow> bool \<Rightarrow> world \<Rightarrow> (error + unit) \<times> world" where
  \<comment> \<open>\<^verbatim>\<open>file_body\<close> is the content of the local file at \<^verbatim>\<open>file_path\<close>\<close>
  "s3_upload_file en bucket key file_path file_body content_type public w =
     (let w1 = log_info ''Uploading to S3'' w;
          w2 = w1\<lparr>calls := calls w1 @ [S3UploadFile bucket key file_path content_type public]\<rparr>
      in case s3_upload_error en bucket key of
           Some m \<Rightarrow> (Inl (S3Error (''Error uploading to '' @ bucket @ ''/'' @ key @ '': '' @ m)), w2)
         | None \<Rightarrow>
             (Inr (),
              w2\<lparr>objects := (objects w2)((bucket, key) \<mapsto>
                     \<lparr>obj_body = file_body, obj_content_type = content_type, obj_public = public\<rparr>)\<rparr>))"

definition ffmpeg_filter :: "config \<Rightarrow> string" where
  "ffmpeg_filter cfg =
     ''select='' @ [sq] @ ''if(not(floor(mod(t,'' @ str_int (THUMBNAIL_INTERVAL cfg)
       @ '')))*lt(ld(1),1),''
       @ ''st(1,1)+st(2,n)+st(3,t));if(eq(ld(1),1)*lt(n,ld(2)+1),1,if(trunc(t-ld(3)),st(1,0)))'' @ [sq]"

definition ffmpeg_cmd :: "config \<Rightarrow> string \<Rightarrow> string \<Rightarrow> string \<Rightarrow> int \<Rightarrow> int \<Rightarrow> string \<Rightarrow> string list" where
  "ffmpeg_cmd cfg hls_url media_key output_dir width height sfx =
     (let output_pattern =
            os_path_join output_dir (media_key @ sfx @ ''.%05d.'' @ THUMBNAIL_FORMAT cfg)
      in [''ffmpeg'', ''-i'', hls_url, ''-vf'', ffmpeg_filter cfg, ''-vsync'', ''0'', ''-s'',
          str_int width @ ''x'' @ str_int height, output_pattern])"

fun upload_thumbnails ::
  "env \<Rightarrow> config \<Rightarrow> string \<Rightarrow> string \<Rightarrow> string \<Rightarrow> (string \<times> string) list \<Rightarrow> string list
     \<Rightarrow> string list \<Rightarrow> world \<Rightarrow> (error + string list) \<times> world" where
  \<comment> \<open>the upload loop, lines 158-177; \<^verbatim>\<open>thumbnail_keys\<close> is the accumulator\<close>
  "upload_thumbnails en cfg bucket thumbnails_folder output_dir files [] thumbnail_keys w =
     (Inr thumbnail_keys, w)"
| "upload_thumbnails en cfg bucket thumbnails_folder output_dir files (filename # rest) thumbnail_keys w =
     (if str_endswith filename (''.'' @ THUMBNAIL_FORMAT cfg)
      then
        (let file_path = os_path_join output_dir filename;
             s3_key = thumbnails_folder @ filename;
             file_body = (case map_of files filename of None \<Rightarrow> [] | Some b \<Rightarrow> b)
         in case s3_upload_file en bucket s3_key file_path file_body
                   (''image/'' @ THUMBNAIL_FORMAT cfg) True w of
              (Inl e, w1) \<Rightarrow> (Inl e, w1)
            | (Inr u, w1) \<Rightarrow>
                upload_thumbnails en cfg bucket thumbnails_folder output_dir files rest
                  (thumbnail_keys @ [s3_key]) (log_debug ''Thumbnail uploaded'' w1))
      else upload_thumbnails en cfg bucket thumbnails_folder output_dir files rest thumbnail_keys w)"

definition generate_resolution_thumbnails_try ::
  "env \<Rightarrow> config \<Rightarrow> string \<Rightarrow> string \<Rightarrow> string \<Rightarrow> string \<Rightarrow> string \<Rightarrow> int \<Rightarrow> int \<Rightarrow> string \<Rightarrow> world
     \<Rightarrow> (error + string list) \<times> world" where
  "generate_resolution_thumbnails_try en cfg hls_url media_key output_dir bucket media_path width height sfx w =
     (let cmd = ffmpeg_cmd cfg hls_url media_key output_dir width height sfx;
          w1 = log_info ''Running FFmpeg'' w;
          w2 = w1\<lparr>calls := calls w1 @ [RunProcess cmd]\<rparr>
      in case run_process en cmd of
           SpawnError m \<Rightarrow> (Inl (OSError m), w2)
         | Exited returncode stderr files \<Rightarrow>
             if returncode \<noteq> 0
             then
               (if stderr \<noteq> []
                then (case decode_utf8 en stderr of
                        Inl m \<Rightarrow> (Inl (UnicodeDecodeError m), w2)
                      | Inr error_msg \<Rightarrow>
                          (Inl (FFMpegError (''FFmpeg failed for '' @ media_key @ '': '' @ error_msg)), w2))
                else (Inl (FFMpegError (''FFmpeg failed for '' @ media_key @ '': ''
                                          @ ''Unknown FFmpeg error'')), w2))
             else
               (let thumbnails_folder = media_path @ THUMBNAILS_FOLDER cfg @ ''/''
                in case upload_thumbnails en cfg bucket thumbnails_folder output_dir files
                          (sort (map fst files)) [] w2 of
                     (Inl e, w3) \<Rightarrow> (Inl e, w3)
                   | (Inr thumbnail_keys, w3) \<Rightarrow>
                       (Inr thumbnail_keys,
                        log_info ''Resolution thumbnails generated and uploaded'' w3)))"

definition generate_resolution_thumbnails ::
  "env \<Rightarrow> config \<Rightarrow> string \<Rightarrow> string \<Rightarrow> string \<Rightarrow> string \<Rightarrow> string \<Rightarrow> int \<Rightarrow> int \<Rightarrow> string \<Rightarrow> world
     \<Rightarrow> (error + string list) \<times> world" where
  "generate_resolution_thumbnails en cfg hls_url media_key output_dir bucket media_path width height sfx w =
     (case generate_resolution_thumbnails_try en cfg hls_url media_key output_dir bucket media_path
             width height sfx w of
        (Inl e, w1) \<Rightarrow> (Inl e, log_error ''Resolution thumbnail generation failed'' w1)
      | (Inr r, w1) \<Rightarrow> (Inr r, w1))"

definition generate_thumbnails_try ::
  "env \<Rightarrow> config \<Rightarrow> string \<Rightarrow> string \<Rightarrow> string \<Rightarrow> string \<Rightarrow> string \<Rightarrow> world
     \<Rightarrow> (error + string list \<times> string list) \<times> world" where
  \<comment> \<open>the body of the \<^verbatim>\<open>try\<close>, lines 43-89, inside the temporary directory \<^verbatim>\<open>tmpdir\<close>\<close>
  "generate_thumbnails_try en cfg tmpdir hls_url media_key bucket media_path w =
     (let w0 = log_info ''Starting thumbnail generation'' w;
          manifest_path = os_path_join tmpdir ''manifest.m3u8''
      in case playlist_key_of hls_url of
           Inl e \<Rightarrow> (Inl e, w0)
         | Inr key \<Rightarrow>
             (case s3_download_file bucket key manifest_path w0 of
                (Inl e, w1) \<Rightarrow> (Inl e, w1)
              | (Inr u, w1) \<Rightarrow>
                  (case generate_resolution_thumbnails en cfg hls_url media_key
                          (os_path_join tmpdir ''small'') bucket media_path
                          (THUMBNAIL_WIDTH cfg) (THUMBNAIL_HEIGHT cfg) THUMBNAIL_SMALL_SUFFIX w1 of
                     (Inl e, w2) \<Rightarrow> (Inl e, w2)
                   | (Inr small_thumbnails, w2) \<Rightarrow>
                       (case generate_resolution_thumbnails en cfg hls_url media_key
                               (os_path_join tmpdir ''big'') bucket media_path
                               (THUMBNAIL_BIG_WIDTH cfg) (THUMBNAIL_BIG_HEIGHT cfg) THUMBNAIL_BIG_SUFFIX w2 of
                          (Inl e, w3) \<Rightarrow> (Inl e, w3)
                        | (Inr big_thumbnails, w3) \<Rightarrow>
                            (Inr (small_thumbnails, big_thumbnails),
                             log_info ''Thumbnail generation completed'' w3)))))"

definition generate_thumbnails_in ::
  "env \<Rightarrow> config \<Rightarrow> string \<Rightarrow> string \<Rightarrow> string \<Rightarrow> string \<Rightarrow> string \<Rightarrow> world
     \<Rightarrow> (error + string list \<times> string list) \<times> world" where
  \<comment> \<open>the \<^verbatim>\<open>try\<close> with its \<^verbatim>\<open>except Exception\<close>, lines 42-97\<close>
  "generate_thumbnails_in en cfg tmpdir hls_url media_key bucket media_path w =
     (case generate_thumbnails_try en cfg tmpdir hls_url media_key bucket media_path w of
        (Inl e, w1) \<Rightarrow>
          (Inl (FFMpegError (''Failed to generate thumbnails for '' @ media_key @ '': '' @ err_str e)),
           log_error ''Thumbnail generation failed'' w1)
      | (Inr r, w1) \<Rightarrow> (Inr r, w1))"

definition generate_thumbnails ::
  "env \<Rightarrow> config \<Rightarrow> string \<Rightarrow> string \<Rightarrow> string \<Rightarrow> string \<Rightarrow> world
     \<Rightarrow> (error + string list \<times> string list) \<times> world" where
  \<comment> \<open>\<^verbatim>\<open>with tempfile.TemporaryDirectory() as tmpdir\<close> (line 41) encloses the \<^verbatim>\<open>try\<close>: an error
      creating the directory, or removing it on exit, is raised as it is\<close>
  "generate_thumbnails en cfg hls_url media_key bucket media_path w =
     (case mkdtemp en of
        Inl m \<Rightarrow> (Inl (OSError m), w)
      | Inr tmpdir \<Rightarrow>
          (case generate_thumbnails_in en cfg tmpdir hls_url media_key bucket media_path w of
             (r, w1) \<Rightarrow>
               (case cleanup_error en tmpdir of
                  Some m \<Rightarrow> (Inl (OSError m), w1)
                | None \<Rightarrow> (r, w1))))"

section \<open>Trigger layer (manifest\_updater/handler.py, cache\_invalidator/handler.py)\<close>




















section \<open>Example inputs\<close>

text \<open>
  A store holding one master playlist, at \<^verbatim>\<open>content/v1/play.m3u8\<close> of the bucket
  \<^verbatim>\<open>media-bucket\<close>, with nothing called and nothing logged yet.
\<close>

definition playlist_obj :: "string \<Rightarrow> s3_object" where
  "playlist_obj c = \<lparr>obj_body = c, obj_content_type = ''application/vnd.apple.mpegurl'', obj_public = True\<rparr>"

definition world_with :: "string \<Rightarrow> world" where
  "world_with playlist_content =
     \<lparr> objects = Map.empty((''media-bucket'', ''content/v1/play.m3u8'') \<mapsto>
                   playlist_obj playlist_content),
       calls = [], logs = [] \<rparr>"

text \<open>
  An environment in which the frame sampler exits with code 1 and a diagnostic, every
  byte string decodes, and the storage, CDN and queue services accept every request; one
  in which the sampler's diagnostic is the single byte \<^verbatim>\<open>0xff\<close>, which is not UTF-8; one
  in which no temporary directory can be made; a configuration with the two required
  settings present; one with, in addition, a non-default small width; and two queue
  records, the first with a body that is not JSON.
\<close>

definition example_env :: env where
  "example_env =
     \<lparr> mkdtemp = Inr ''/tmp/tmpa1b2c3'',
       cleanup_error = (\<lambda>path. None),
       run_process = (\<lambda>cmd. Exited 1 ''Invalid data found when processing input'' []),
       decode_utf8 = Inr,
       s3_upload_error = (\<lambda>bucket key. None),
       cf_create_invalidation = (\<lambda>distribution_id paths. Inr ''I2J0EXAMPLE''),
       sqs_send_error = (\<lambda>url. None),
       sqs_delete_error = (\<lambda>url handle. None) \<rparr>"

definition invalid_start_byte :: string where
  "invalid_start_byte =
     [sq] @ ''utf-8'' @ [sq] @ '' codec can'' @ [sq]
       @ ''t decode byte 0xff in position 0: invalid start byte''"

definition undecodable_env :: env where
  "undecodable_env = example_env
     \<lparr> run_process := (\<lambda>cmd. Exited 1 [CHR 0xFF] []),
       decode_utf8 := (\<lambda>bytes. if bytes = [CHR 0xFF] then Inl invalid_start_byte else Inr bytes) \<rparr>"

definition no_tmpdir_env :: env where
  "no_tmpdir_env = example_env \<lparr> mkdtemp := Inl ''[Errno 28] No space left on device'' \<rparr>"

definition valid_config :: config where
  "valid_config = default_config
     \<lparr> AWS_S3_BUCKET := Some ''media-bucket'',
       AWS_CLOUDFRONT_DISTRIBUTION_ID := Some ''E1EXAMPLE'' \<rparr>"



definition wide_config :: config where
  "wide_config = valid_config \<lparr> THUMBNAIL_WIDTH := 400 \<rparr>"

text \<open>An observation on the trace of calls: the launches of the external sampler.\<close>

fun is_RunProcess :: "api_call \<Rightarrow> bool" where
  "is_RunProcess (RunProcess cmd) = True"
| "is_RunProcess c = False"

section \<open>Facts about the string operations\<close>

lemma str_find_None_scan: "str_find old s = None \<Longrightarrow> replace_scan old new count s = s"
  by (induction s) (auto split: if_splits)

lemma str_find_Some_prefix:
  "str_find sub s = Some i \<Longrightarrow> i \<le> length s \<and> prefix sub (drop i s)"
  by (induction s arbitrary: i) (auto split: if_splits)

lemma str_find_Some_least:
  "str_find sub s = Some i \<Longrightarrow> j < i \<Longrightarrow> \<not> prefix sub (drop j s)"
proof (induction s arbitrary: i j)
  case Nil
  then show ?case by (auto split: if_splits)
next
  case (Cons c cs)
  then show ?case by (cases j) (auto split: if_splits)
qed

lemma str_find_prefix: "prefix sub s \<Longrightarrow> str_find sub s = Some 0"
  by (cases s) auto

lemma str_find_append: "str_find sub (ps @ sub @ ss) \<noteq> None"
  by (induction ps) (auto simp: str_find_prefix)

lemma str_in_iff: "str_in sub s \<longleftrightarrow> (\<exists>ps ss. s = ps @ sub @ ss)"
proof
  assume "str_in sub s"
  then obtain i where i: "str_find sub s = Some i" by (auto simp: str_in_def)
  from str_find_Some_prefix[OF i] obtain ss where "drop i s = sub @ ss"
    by (auto simp: prefix_def)
  then have "s = take i s @ sub @ ss" by (metis append_take_drop_id)
  then show "\<exists>ps ss. s = ps @ sub @ ss" by blast
next
  assume "\<exists>ps ss. s = ps @ sub @ ss"
  then obtain ps ss where "s = ps @ sub @ ss" by blast
  then show "str_in sub s" unfolding str_in_def using str_find_append by simp
qed

lemma str_in_trans: "str_in a b \<Longrightarrow> str_in b c \<Longrightarrow> str_in a c"
proof -
  assume "str_in a b" "str_in b c"
  then obtain p1 s1 p2 s2 where "b = p1 @ a @ s1" "c = p2 @ b @ s2"
    by (auto simp: str_in_iff)
  then have "c = (p2 @ p1) @ a @ (s1 @ s2)" by simp
  then show ?thesis unfolding str_in_iff by blast
qed

lemma replace_scan_zero: "replace_scan old new 0 s = s"
  by (cases s) auto

lemma replace_scan_first:
  "old \<noteq> [] \<Longrightarrow> str_find old s = Some i \<Longrightarrow>
     replace_scan old new 1 s = take i s @ new @ drop (i + length old) s"
proof (induction s arbitrary: i)
  case Nil
  then show ?case by (auto split: if_splits)
next
  case (Cons c cs)
  show ?case
  proof (cases "prefix old (c # cs)")
    case True
    with Cons.prems show ?thesis by (simp add: replace_scan_zero)
  next
    case False
    with Cons.prems obtain k where k: "str_find old cs = Some k" "i = Suc k"
      by auto
    with Cons.IH[OF Cons.prems(1) k(1)] False Cons.prems(1) show ?thesis by simp
  qed
qed

lemma replace_scan_neg: "count < 0 \<Longrightarrow>
    replace_scan old new count s = replace_scan old new (- 1) s"
proof (induction "length s" arbitrary: s count rule: less_induct)
  case less
  show ?case
  proof (cases s)
    case Nil
    then show ?thesis by simp
  next
    case (Cons c cs)
    show ?thesis
    proof (cases "old = []")
      case True
      then show ?thesis using Cons less.prems by simp
    next
      case False
      show ?thesis
      proof (cases "prefix old (c # cs)")
        case True
        have len: "length (drop (length old) (c # cs)) < length s"
          using False Cons by (cases old) auto
        have a: "replace_scan old new (count - 1) (drop (length old) (c # cs))
            = replace_scan old new (- 1) (drop (length old) (c # cs))"
          using less.hyps[OF len, of "count - 1"] less.prems by simp
        have b: "replace_scan old new (- 1 - 1) (drop (length old) (c # cs))
            = replace_scan old new (- 1) (drop (length old) (c # cs))"
          using less.hyps[OF len, of "- 1 - 1"] by simp
        show ?thesis using Cons False True less.prems a b by simp
      next
        case False2: False
        have len: "length cs < length s" using Cons by simp
        have "replace_scan old new count cs = replace_scan old new (- 1) cs"
          by (rule less.hyps[OF len less.prems])
        then show ?thesis using Cons False False2 less.prems by simp
      qed
    qed
  qed
qed
lemma replace_scan_all_first:
  "old \<noteq> [] \<Longrightarrow> str_find old s = Some i \<Longrightarrow>
     replace_scan old new (- 1) s
       = take i s @ new @ replace_scan old new (- 1) (drop (i + length old) s)"
proof (induction s arbitrary: i)
  case Nil
  then show ?case by (auto split: if_splits)
next
  case (Cons c cs)
  show ?case
  proof (cases "prefix old (c # cs)")
    case True
    have "replace_scan old new (- 2) (drop (length old) (c # cs))
        = replace_scan old new (- 1) (drop (length old) (c # cs))"
      by (rule replace_scan_neg) simp
    with True Cons.prems show ?thesis by simp
  next
    case False
    with Cons.prems obtain k where k: "str_find old cs = Some k" "i = Suc k"
      by auto
    with Cons.IH[OF Cons.prems(1) k(1)] False Cons.prems(1) show ?thesis by simp
  qed
qed

lemma fn_in_image_stream_line:
  "str_in manifest_filename (image_stream_line manifest_filename resolution bandwidth)"
  unfolding str_in_iff image_stream_line_def
  by (rule exI[of _ "''#EXT-X-IMAGE-STREAM-INF:BANDWIDTH='' @ str_int bandwidth @ '',RESOLUTION=''
         @ resolution @ '',CODECS='' @ [dq] @ ''jpeg'' @ [dq] @ '',URI='' @ [dq]"],
      rule exI[of _ "[dq] @ ''\<newline>''"]) simp

lemma updated_content_neither:
  "\<not> str_in ''#EXT-X-STREAM-INF'' P \<Longrightarrow> \<not> str_in ''#EXT-X-ENDLIST'' P \<Longrightarrow> updated_content P line = P"
  by (simp add: updated_content_def str_replace_def str_in_def str_find_None_scan)

lemma update_main_playlist_already:
  assumes "playlist_key_of hls_url = Inr playlist_key"
    and "objects w (bucket, playlist_key) = Some obj"
    and "str_in manifest_filename (obj_body obj)"
  shows "update_main_playlist bucket media_path hls_url manifest_filename resolution bandwidth w
       = (Inr (), log_info ''Playlist already updated''
                    (w\<lparr>calls := calls w @ [S3GetObject bucket playlist_key]\<rparr>))"
  using assms
  by (simp add: update_main_playlist_def update_main_playlist_try_def s3_get_object_def Let_def)

lemma update_main_playlist_writes:
  assumes "playlist_key_of hls_url = Inr playlist_key"
    and "objects w (bucket, playlist_key) = Some obj"
    and "\<not> str_in manifest_filename (obj_body obj)"
  shows "\<exists>w'. update_main_playlist bucket media_path hls_url manifest_filename resolution bandwidth w
           = (Inr (), w')
       \<and> calls w' = calls w @
           [S3GetObject bucket playlist_key,
            S3PutObject bucket playlist_key
              (updated_content (obj_body obj) (image_stream_line manifest_filename resolution bandwidth))
              ''application/vnd.apple.mpegurl'' True]
       \<and> objects w' = (objects w)((bucket, playlist_key) \<mapsto>
            \<lparr>obj_body = updated_content (obj_body obj)
                          (image_stream_line manifest_filename resolution bandwidth),
             obj_content_type = ''application/vnd.apple.mpegurl'', obj_public = True\<rparr>)"
  using assms
  by (simp add: update_main_playlist_def update_main_playlist_try_def s3_get_object_def
      s3_put_object_def log_info_def Let_def)

lemma prefix_drop_split:
  assumes "prefix sub (drop i s)"
  shows "drop i s = sub @ drop (i + length sub) s"
proof -
  from assms obtain zs where zs: "drop i s = sub @ zs" by (auto simp: prefix_def)
  then have "drop (length sub) (drop i s) = zs" by simp
  then have "drop (i + length sub) s = zs" by (simp add: add.commute)
  with zs show ?thesis by simp
qed

lemma str_nat_small: "n < 10 \<Longrightarrow> str_nat n = [digit_char n]"
  by (simp add: str_nat.simps)

lemma str_nat_large: "10 \<le> n \<Longrightarrow> str_nat n = str_nat (n div 10) @ [digit_char (n mod 10)]"
  by (subst str_nat.simps) simp

lemmas str_int_eval = str_int_def str_nat_small str_nat_large digit_char_def

lemma str_int_16460: "str_int 16460 = ''16460''"
  by (simp add: str_int_eval)

lemma example_line:
  "image_stream_line ''thumbs_320x180.m3u8'' ''320x180'' 16460
     = ''#EXT-X-IMAGE-STREAM-INF:BANDWIDTH=16460,RESOLUTION=320x180,CODECS='' @ [dq] @ ''jpeg'' @ [dq]
         @ '',URI='' @ [dq] @ ''thumbs_320x180.m3u8'' @ [dq] @ ''\<newline>''"
  by (simp add: image_stream_line_def str_int_16460)

lemma example_key: "playlist_key_of ''s3://media-bucket/content/v1/play.m3u8'' = Inr ''content/v1/play.m3u8''"
  by code_simp

section \<open>The master playlist merge\<close>

lemma s3_put_object_simps:
  "s3_put_object bucket key body ct pub w =
     (Inr (), \<lparr>objects = (objects w)((bucket, key) \<mapsto> \<lparr>obj_body = body, obj_content_type = ct, obj_public = pub\<rparr>),
               calls = calls w @ [S3PutObject bucket key body ct pub],
               logs = logs w @ [(''INFO'', ''Putting object to S3'')]\<rparr>)"
  by (simp add: s3_put_object_def log_info_def)

text \<open>
  Claim C1 (idempotent merge). When the master playlist the merge step fetches already
  contains the manifest's filename, the merge step returns without writing: the only
  calls of the Composer for that resolution are the write of the manifest and the read
  of the master playlist, the master playlist is left as it was fetched, and running the
  Composer again with the same inputs leaves every stored object as it is.
\<close>

theorem merge_is_idempotent:
  assumes key: "playlist_key_of hls_url = Inr playlist_key"
    and fetched: "((objects w)((bucket, media_path @ manifest_filename_of resolution) \<mapsto>
                    \<lparr>obj_body = manifest_content cfg media_path thumbnails resolution,
                     obj_content_type = ''application/vnd.apple.mpegurl'', obj_public = True\<rparr>))
                  (bucket, playlist_key) = Some obj"
    and present: "str_in (manifest_filename_of resolution) (obj_body obj)"
  shows "\<exists>wm w1 w2.
           s3_put_object bucket (media_path @ manifest_filename_of resolution)
             (manifest_content cfg media_path thumbnails resolution)
             ''application/vnd.apple.mpegurl'' True w = (Inr (), wm)
         \<and> update_main_playlist bucket media_path hls_url (manifest_filename_of resolution)
               resolution bandwidth wm
             = (Inr (), log_info ''Playlist already updated''
                          (wm\<lparr>calls := calls wm @ [S3GetObject bucket playlist_key]\<rparr>))
         \<and> create_manifest cfg bucket media_path hls_url thumbnails resolution bandwidth sfx w
             = (Inr (''Created '' @ manifest_filename_of resolution @ '' for '' @ resolution), w1)
         \<and> calls w1 = calls w @
               [S3PutObject bucket (media_path @ manifest_filename_of resolution)
                  (manifest_content cfg media_path thumbnails resolution)
                  ''application/vnd.apple.mpegurl'' True,
                S3GetObject bucket playlist_key]
         \<and> objects w1 (bucket, playlist_key) = Some obj
         \<and> create_manifest cfg bucket media_path hls_url thumbnails resolution bandwidth sfx w1
             = (Inr (''Created '' @ manifest_filename_of resolution @ '' for '' @ resolution), w2)
         \<and> objects w2 = objects w1"
proof -
  let ?mk = "media_path @ manifest_filename_of resolution"
  let ?mc = "manifest_content cfg media_path thumbnails resolution"
  let ?ct = "''application/vnd.apple.mpegurl''"
  obtain wm where wm: "s3_put_object bucket ?mk ?mc ?ct True w = (Inr (), wm)"
    by (simp add: s3_put_object_simps)
  have owm: "objects wm = (objects w)((bucket, ?mk) \<mapsto>
                \<lparr>obj_body = ?mc, obj_content_type = ?ct, obj_public = True\<rparr>)"
    and cwm: "calls wm = calls w @ [S3PutObject bucket ?mk ?mc ?ct True]"
    using wm by (auto simp: s3_put_object_simps)
  have f1: "objects wm (bucket, playlist_key) = Some obj"
    using fetched owm by simp
  note m1 = update_main_playlist_already[OF key f1 present, of media_path resolution bandwidth]
  define w1 where "w1 = log_info ''Manifest created''
      (log_info ''Playlist already updated'' (wm\<lparr>calls := calls wm @ [S3GetObject bucket playlist_key]\<rparr>))"
  have r1: "create_manifest cfg bucket media_path hls_url thumbnails resolution bandwidth sfx w
      = (Inr (''Created '' @ manifest_filename_of resolution @ '' for '' @ resolution), w1)"
    by (simp add: create_manifest_def create_manifest_try_def Let_def wm m1 w1_def)
  have ow1: "objects w1 = objects wm" and cw1: "calls w1 = calls wm @ [S3GetObject bucket playlist_key]"
    by (simp_all add: w1_def log_info_def)
  obtain wm2 where wm2: "s3_put_object bucket ?mk ?mc ?ct True w1 = (Inr (), wm2)"
    by (simp add: s3_put_object_simps)
  have owm2: "objects wm2 = objects wm"
    using wm2 by (auto simp: s3_put_object_simps ow1 owm)
  have f2: "objects wm2 (bucket, playlist_key) = Some obj"
    using f1 owm2 by simp
  note m2 = update_main_playlist_already[OF key f2 present, of media_path resolution bandwidth]
  define w2 where "w2 = log_info ''Manifest created''
      (log_info ''Playlist already updated'' (wm2\<lparr>calls := calls wm2 @ [S3GetObject bucket playlist_key]\<rparr>))"
  have r2: "create_manifest cfg bucket media_path hls_url thumbnails resolution bandwidth sfx w1
      = (Inr (''Created '' @ manifest_filename_of resolution @ '' for '' @ resolution), w2)"
    by (simp add: create_manifest_def create_manifest_try_def Let_def wm2 m2 w2_def)
  have ow2: "objects w2 = objects w1"
    by (simp add: w2_def log_info_def owm2 ow1)
  show ?thesis
    using wm m1 r1 r2 ow2 f1 ow1 cw1 cwm by (intro exI[of _ wm] exI[of _ w1] exI[of _ w2]) simp
qed

theorem merge_is_idempotent_witness:
  "\<exists>w1. create_manifest default_config ''media-bucket'' ''content/v1/''
            ''s3://media-bucket/content/v1/play.m3u8'' [''content/v1/thumbs/v1_small.00001.jpg'']
            ''320x180'' 16460 ''small''
            (world_with ''#EXTM3U\<newline>thumbs_320x180.m3u8\<newline>'')
          = (Inr ''Created thumbs_320x180.m3u8 for 320x180'', w1)
        \<and> objects w1 (''media-bucket'', ''content/v1/play.m3u8'')
          = Some (playlist_obj ''#EXTM3U\<newline>thumbs_320x180.m3u8\<newline>'')"
proof -
  have h2: "((objects (world_with ''#EXTM3U\<newline>thumbs_320x180.m3u8\<newline>''))
               ((''media-bucket'', ''content/v1/'' @ manifest_filename_of ''320x180'') \<mapsto>
                    \<lparr>obj_body = manifest_content default_config ''content/v1/''
                                  [''content/v1/thumbs/v1_small.00001.jpg''] ''320x180'',
                     obj_content_type = ''application/vnd.apple.mpegurl'', obj_public = True\<rparr>))
                  (''media-bucket'', ''content/v1/play.m3u8'')
            = Some (playlist_obj ''#EXTM3U\<newline>thumbs_320x180.m3u8\<newline>'')"
    by (simp add: world_with_def manifest_filename_of_def playlist_obj_def)
  have h3: "str_in (manifest_filename_of ''320x180'')
              (obj_body (playlist_obj ''#EXTM3U\<newline>thumbs_320x180.m3u8\<newline>''))"
    by (simp add: manifest_filename_of_def playlist_obj_def str_in_def)
  from merge_is_idempotent[OF example_key h2 h3, of 16460 "''small''"]
  show ?thesis by (auto simp: manifest_filename_of_def)
qed

text \<open>
  Claim C10 (no marker, no insertion). When the fetched master playlist contains neither
  the manifest's filename nor \<^verbatim>\<open>#EXT-X-STREAM-INF\<close> nor \<^verbatim>\<open>#EXT-X-ENDLIST\<close>,
  the merge step writes the playlist back with the content it read, and the image-stream
  line occurs nowhere in it.
\<close>

theorem merge_without_markers_writes_back_unchanged:
  assumes "playlist_key_of hls_url = Inr playlist_key"
    and "objects w (bucket, playlist_key) = Some obj"
    and "\<not> str_in manifest_filename (obj_body obj)"
    and "\<not> str_in ''#EXT-X-STREAM-INF'' (obj_body obj)"
    and "\<not> str_in ''#EXT-X-ENDLIST'' (obj_body obj)"
  shows "\<exists>w'. update_main_playlist bucket media_path hls_url manifest_filename resolution bandwidth w
           = (Inr (), w')
       \<and> calls w' = calls w @
           [S3GetObject bucket playlist_key,
            S3PutObject bucket playlist_key (obj_body obj) ''application/vnd.apple.mpegurl'' True]
       \<and> objects w' = (objects w)((bucket, playlist_key) \<mapsto>
            \<lparr>obj_body = obj_body obj, obj_content_type = ''application/vnd.apple.mpegurl'',
             obj_public = True\<rparr>)
       \<and> \<not> str_in (image_stream_line manifest_filename resolution bandwidth) (obj_body obj)"
proof -
  have same: "updated_content (obj_body obj) (image_stream_line manifest_filename resolution bandwidth)
      = obj_body obj"
    using assms(4,5) by (rule updated_content_neither)
  have absent: "\<not> str_in (image_stream_line manifest_filename resolution bandwidth) (obj_body obj)"
    using assms(3) fn_in_image_stream_line str_in_trans by blast
  from update_main_playlist_writes[OF assms(1,2,3), of media_path resolution bandwidth] same absent
  show ?thesis by simp
qed

theorem merge_without_markers_witness:
  "\<exists>w'. update_main_playlist ''media-bucket'' ''content/v1/'' ''s3://media-bucket/content/v1/play.m3u8''
            ''thumbs_320x180.m3u8'' ''320x180'' 16460 (world_with ''#EXTM3U\<newline>#EXT-X-VERSION:3\<newline>'')
          = (Inr (), w')
        \<and> objects w' (''media-bucket'', ''content/v1/play.m3u8'')
          = Some (playlist_obj ''#EXTM3U\<newline>#EXT-X-VERSION:3\<newline>'')"
proof -
  let ?P = "''#EXTM3U\<newline>#EXT-X-VERSION:3\<newline>''"
  have h2: "objects (world_with ?P) (''media-bucket'', ''content/v1/play.m3u8'') = Some (playlist_obj ?P)"
    by (simp add: world_with_def playlist_obj_def)
  have h3: "\<not> str_in ''thumbs_320x180.m3u8'' (obj_body (playlist_obj ?P))"
    by (simp add: playlist_obj_def str_in_def)
  have h4: "\<not> str_in ''#EXT-X-STREAM-INF'' (obj_body (playlist_obj ?P))"
    by (simp add: playlist_obj_def str_in_def)
  have h5: "\<not> str_in ''#EXT-X-ENDLIST'' (obj_body (playlist_obj ?P))"
    by (simp add: playlist_obj_def str_in_def)
  from merge_without_markers_writes_back_unchanged[OF example_key h2 h3 h4 h5,
      of "''content/v1/''" "''320x180''" 16460]
  show ?thesis by (auto simp: playlist_obj_def)
qed

text \<open>
  Where a marker is present, the splice puts the line immediately before the first
  \<^verbatim>\<open>#EXT-X-STREAM-INF\<close>; when there is none, immediately before the first
  \<^verbatim>\<open>#EXT-X-ENDLIST\<close>, and the replacement there, which has no count, goes on through
  the rest of the document.
\<close>

lemma updated_content_position:
  "(str_find ''#EXT-X-STREAM-INF'' playlist_content = Some i \<longrightarrow>
      updated_content playlist_content line = take i playlist_content @ line @ drop i playlist_content
      \<and> prefix ''#EXT-X-STREAM-INF'' (drop i playlist_content)
      \<and> (\<forall>j<i. \<not> prefix ''#EXT-X-STREAM-INF'' (drop j playlist_content)))
   \<and> (\<not> str_in ''#EXT-X-STREAM-INF'' playlist_content \<longrightarrow>
        str_find ''#EXT-X-ENDLIST'' playlist_content = Some i \<longrightarrow>
      updated_content playlist_content line
        = take i playlist_content @ line @ ''#EXT-X-ENDLIST''
            @ str_replace (drop (i + length ''#EXT-X-ENDLIST'') playlist_content) ''#EXT-X-ENDLIST''
                (line @ ''#EXT-X-ENDLIST'') (- 1)
      \<and> prefix ''#EXT-X-ENDLIST'' (drop i playlist_content)
      \<and> (\<forall>j<i. \<not> prefix ''#EXT-X-ENDLIST'' (drop j playlist_content)))"
proof (intro conjI impI)
  let ?S = "''#EXT-X-STREAM-INF''"
  assume f: "str_find ?S playlist_content = Some i"
  have pre: "prefix ?S (drop i playlist_content)"
    using str_find_Some_prefix[OF f] by (rule conjunct2)
  have d: "drop i playlist_content = ?S @ drop (i + length ?S) playlist_content"
    using pre by (rule prefix_drop_split)
  have ne: "?S \<noteq> []" by simp
  have u: "updated_content playlist_content line = replace_scan ?S (line @ ?S) 1 playlist_content"
    using f by (simp add: updated_content_def str_in_def str_replace_def)
  have "updated_content playlist_content line
      = take i playlist_content @ (line @ ?S) @ drop (i + length ?S) playlist_content"
    unfolding u by (rule replace_scan_first[OF ne f])
  also have "\<dots> = take i playlist_content @ line @ (?S @ drop (i + length ?S) playlist_content)"
    by (simp only: append_assoc)
  also have "\<dots> = take i playlist_content @ line @ drop i playlist_content"
    using d by (simp only:)
  finally show "updated_content playlist_content line
      = take i playlist_content @ line @ drop i playlist_content" .
  show "prefix ?S (drop i playlist_content)" by (rule pre)
  show "\<forall>j<i. \<not> prefix ?S (drop j playlist_content)"
    using str_find_Some_least[OF f] by blast
next
  let ?E = "''#EXT-X-ENDLIST''"
  assume n: "\<not> str_in ''#EXT-X-STREAM-INF'' playlist_content"
    and f: "str_find ?E playlist_content = Some i"
  have ne: "?E \<noteq> []" by simp
  have u: "updated_content playlist_content line = replace_scan ?E (line @ ?E) (- 1) playlist_content"
    using n by (simp add: updated_content_def str_replace_def)
  have r: "str_replace (drop (i + length ?E) playlist_content) ?E (line @ ?E) (- 1)
      = replace_scan ?E (line @ ?E) (- 1) (drop (i + length ?E) playlist_content)"
    unfolding str_replace_def using ne by (simp only: if_False)
  have "updated_content playlist_content line
      = take i playlist_content @ (line @ ?E)
          @ replace_scan ?E (line @ ?E) (- 1) (drop (i + length ?E) playlist_content)"
    unfolding u by (rule replace_scan_all_first[OF ne f])
  then show "updated_content playlist_content line
        = take i playlist_content @ line @ ?E
            @ str_replace (drop (i + length ?E) playlist_content) ?E (line @ ?E) (- 1)"
    unfolding r by (simp only: append_assoc)
  show "prefix ?E (drop i playlist_content)"
    using str_find_Some_prefix[OF f] by (rule conjunct2)
  show "\<forall>j<i. \<not> prefix ?E (drop j playlist_content)"
    using str_find_Some_least[OF f] by blast
qed

lemma updated_content_position_example:
  "updated_content ''#EXTM3U\<newline>#EXT-X-STREAM-INF:BANDWIDTH=800000\<newline>low.m3u8\<newline>'' ''IMG\<newline>''
     = ''#EXTM3U\<newline>IMG\<newline>#EXT-X-STREAM-INF:BANDWIDTH=800000\<newline>low.m3u8\<newline>''
   \<and> updated_content ''#EXTM3U\<newline>#EXT-X-ENDLIST\<newline>'' ''IMG\<newline>''
     = ''#EXTM3U\<newline>IMG\<newline>#EXT-X-ENDLIST\<newline>''"
proof -
  let ?P1 = "''#EXTM3U\<newline>#EXT-X-STREAM-INF:BANDWIDTH=800000\<newline>low.m3u8\<newline>''"
  let ?P2 = "''#EXTM3U\<newline>#EXT-X-ENDLIST\<newline>''"
  have f1: "str_find ''#EXT-X-STREAM-INF'' ?P1 = Some 8" by simp
  have n2: "\<not> str_in ''#EXT-X-STREAM-INF'' ?P2" by (simp add: str_in_def)
  have f2: "str_find ''#EXT-X-ENDLIST'' ?P2 = Some 8" by simp
  have r: "str_replace ''\<newline>'' ''#EXT-X-ENDLIST'' ''IMG\<newline>#EXT-X-ENDLIST'' (- 1) = ''\<newline>''"
    by code_simp
  from updated_content_position[of ?P1 8 "''IMG\<newline>''"] f1
  have a: "updated_content ?P1 ''IMG\<newline>'' = take 8 ?P1 @ ''IMG\<newline>'' @ drop 8 ?P1" by blast
  from updated_content_position[of ?P2 8 "''IMG\<newline>''"] n2 f2
  have b: "updated_content ?P2 ''IMG\<newline>''
        = take 8 ?P2 @ ''IMG\<newline>'' @ ''#EXT-X-ENDLIST''
            @ str_replace (drop (8 + length ''#EXT-X-ENDLIST'') ?P2) ''#EXT-X-ENDLIST''
                (''IMG\<newline>'' @ ''#EXT-X-ENDLIST'') (- 1)" by blast
  show ?thesis unfolding a b by (simp add: r)
qed

text \<open>
  Claim C3 (insertion position). The merge step is there to add the image-stream line to
  the master playlist, before \<^verbatim>\<open>#EXT-X-STREAM-INF\<close> if it exists or at the end, as its
  comments say. On a master playlist with neither \<^verbatim>\<open>#EXT-X-STREAM-INF\<close> nor
  \<^verbatim>\<open>#EXT-X-ENDLIST\<close> it adds nothing: the step succeeds, logs that the playlist was
  updated, and the playlist stored is the one that was read, with the line nowhere in it.
\<close>

theorem merge_without_marker_inserts_nothing:
  "\<not> str_in ''#EXT-X-STREAM-INF'' ''#EXTM3U\<newline>#EXT-X-VERSION:3\<newline>''
   \<and> \<not> str_in ''#EXT-X-ENDLIST'' ''#EXTM3U\<newline>#EXT-X-VERSION:3\<newline>''
   \<and> \<not> str_in ''thumbs_320x180.m3u8'' ''#EXTM3U\<newline>#EXT-X-VERSION:3\<newline>''
   \<and> fst (update_main_playlist ''media-bucket'' ''content/v1/''
            ''s3://media-bucket/content/v1/play.m3u8'' ''thumbs_320x180.m3u8'' ''320x180'' 16460
            (world_with ''#EXTM3U\<newline>#EXT-X-VERSION:3\<newline>'')) = Inr ()
   \<and> objects (snd (update_main_playlist ''media-bucket'' ''content/v1/''
            ''s3://media-bucket/content/v1/play.m3u8'' ''thumbs_320x180.m3u8'' ''320x180'' 16460
            (world_with ''#EXTM3U\<newline>#EXT-X-VERSION:3\<newline>'')))
         (''media-bucket'', ''content/v1/play.m3u8'')
       = Some (playlist_obj ''#EXTM3U\<newline>#EXT-X-VERSION:3\<newline>'')
   \<and> logs (snd (update_main_playlist ''media-bucket'' ''content/v1/''
            ''s3://media-bucket/content/v1/play.m3u8'' ''thumbs_320x180.m3u8'' ''320x180'' 16460
            (world_with ''#EXTM3U\<newline>#EXT-X-VERSION:3\<newline>'')))
       = [(''INFO'', ''Putting object to S3''), (''INFO'', ''Playlist updated'')]
   \<and> \<not> str_in (image_stream_line ''thumbs_320x180.m3u8'' ''320x180'' 16460)
         ''#EXTM3U\<newline>#EXT-X-VERSION:3\<newline>''"
proof -
  let ?P = "''#EXTM3U\<newline>#EXT-X-VERSION:3\<newline>''"
  let ?line = "image_stream_line ''thumbs_320x180.m3u8'' ''320x180'' 16460"
  have n1: "\<not> str_in ''#EXT-X-STREAM-INF'' ?P" by (simp add: str_in_def)
  have n2: "\<not> str_in ''#EXT-X-ENDLIST'' ?P" by (simp add: str_in_def)
  have n3: "\<not> str_in ''thumbs_320x180.m3u8'' ?P" by (simp add: str_in_def)
  have u: "updated_content ?P ?line = ?P"
    using n1 n2 by (rule updated_content_neither)
  have n4: "\<not> str_in ?line ?P"
    unfolding example_line by (simp add: str_in_def dq_def)
  have g: "s3_get_object ''media-bucket'' ''content/v1/play.m3u8'' (world_with ?P)
      = (Inr ?P, (world_with ?P)\<lparr>calls := [S3GetObject ''media-bucket'' ''content/v1/play.m3u8'']\<rparr>)"
    by (simp add: s3_get_object_def world_with_def playlist_obj_def)
  have r: "update_main_playlist ''media-bucket'' ''content/v1/''
            ''s3://media-bucket/content/v1/play.m3u8'' ''thumbs_320x180.m3u8'' ''320x180'' 16460
            (world_with ?P)
      = (Inr (), log_info ''Playlist updated''
           (snd (s3_put_object ''media-bucket'' ''content/v1/play.m3u8'' ?P
                   ''application/vnd.apple.mpegurl'' True
                   ((world_with ?P)\<lparr>calls := [S3GetObject ''media-bucket'' ''content/v1/play.m3u8'']\<rparr>))))"
    using n3
    by (simp add: update_main_playlist_def update_main_playlist_try_def example_key g u
        s3_put_object_simps)
  have a: "fst (update_main_playlist ''media-bucket'' ''content/v1/''
            ''s3://media-bucket/content/v1/play.m3u8'' ''thumbs_320x180.m3u8'' ''320x180'' 16460
            (world_with ?P)) = Inr ()"
    by (simp add: r)
  have b: "objects (snd (update_main_playlist ''media-bucket'' ''content/v1/''
            ''s3://media-bucket/content/v1/play.m3u8'' ''thumbs_320x180.m3u8'' ''320x180'' 16460
            (world_with ?P))) (''media-bucket'', ''content/v1/play.m3u8'') = Some (playlist_obj ?P)"
    by (simp add: r s3_put_object_simps log_info_def playlist_obj_def)
  have c: "logs (snd (update_main_playlist ''media-bucket'' ''content/v1/''
            ''s3://media-bucket/content/v1/play.m3u8'' ''thumbs_320x180.m3u8'' ''320x180'' 16460
            (world_with ?P)))
       = [(''INFO'', ''Putting object to S3''), (''INFO'', ''Playlist updated'')]"
    unfolding r by (simp add: s3_put_object_simps log_info_def world_with_def)
  show ?thesis using n1 n2 n3 a b c n4 by blast
qed

section \<open>The per-resolution manifest\<close>

lemma fold_append_blocks: "fold (\<lambda>k ls. ls @ f k) ks acc = acc @ concat (map f ks)"
  by (induction ks arbitrary: acc) auto

lemma manifest_lines_closed:
  "manifest_lines cfg media_path thumbnails resolution =
     [''#EXTM3U'',
      ''#EXT-X-TARGETDURATION:'' @ str_int (THUMBNAIL_INTERVAL cfg),
      ''#EXT-X-VERSION:7'',
      ''#EXT-X-MEDIA-SEQUENCE:1'',
      ''#EXT-X-PLAYLIST-TYPE:VOD'',
      ''#EXT-X-IMAGES-ONLY'',
      []]
     @ concat (map (\<lambda>thumbnail_key.
          [''#EXTINF:'' @ str_int (THUMBNAIL_INTERVAL cfg) @ ''.000,'',
           ''#EXT-X-TILES:RESOLUTION='' @ resolution @ '',LAYOUT=1x1,DURATION=''
             @ str_int (THUMBNAIL_INTERVAL cfg) @ ''.000'',
           (if str_in ''hls/'' media_path then ''../thumbs/'' else ''thumbs/'')
             @ thumbnail_name_of thumbnail_key,
           []]) thumbnails)
     @ [''#EXT-X-ENDLIST'']"
proof -
  let ?f = "\<lambda>thumbnail_key.
          [''#EXTINF:'' @ str_int (THUMBNAIL_INTERVAL cfg) @ ''.000,'',
           ''#EXT-X-TILES:RESOLUTION='' @ resolution @ '',LAYOUT=1x1,DURATION=''
             @ str_int (THUMBNAIL_INTERVAL cfg) @ ''.000'',
           (if str_in ''hls/'' media_path then ''../thumbs/'' else ''thumbs/'')
             @ thumbnail_name_of thumbnail_key,
           []]"
  have "manifest_lines cfg media_path thumbnails resolution
      = fold (\<lambda>k ls. ls @ ?f k) thumbnails
          [''#EXTM3U'',
           ''#EXT-X-TARGETDURATION:'' @ str_int (THUMBNAIL_INTERVAL cfg),
           ''#EXT-X-VERSION:7'',
           ''#EXT-X-MEDIA-SEQUENCE:1'',
           ''#EXT-X-PLAYLIST-TYPE:VOD'',
           ''#EXT-X-IMAGES-ONLY'',
           []] @ [''#EXT-X-ENDLIST'']"
    by (simp add: manifest_lines_def Let_def)
  then show ?thesis by (simp only: fold_append_blocks append_assoc)
qed

lemma str_join_snoc: "str_join sep (xs @ [x]) = concat (map (\<lambda>l. l @ sep) xs) @ x"
proof (induction xs)
  case Nil
  then show ?case by simp
next
  case (Cons a xs)
  then show ?case by (cases xs) auto
qed

lemma str_split_nonempty: "str_split s sep \<noteq> []"
  by (induction s) (auto simp: Let_def)

lemma str_split_no_sep: "w \<in> set (str_split s sep) \<Longrightarrow> sep \<notin> set w"
proof (induction s arbitrary: w)
  case Nil
  then show ?case by simp
next
  case (Cons c cs)
  obtain x xs where ws: "str_split cs sep = x # xs"
    using str_split_nonempty[of cs sep] by (cases "str_split cs sep") auto
  show ?case
  proof (cases "c = sep")
    case True
    with Cons show ?thesis by auto
  next
    case False
    with Cons.prems ws have "w = c # x \<or> w \<in> set xs" by (simp add: Let_def)
    then show ?thesis
    proof
      assume "w = c # x"
      moreover have "sep \<notin> set x" using Cons.IH[of x] ws by simp
      ultimately show ?thesis using False by auto
    next
      assume "w \<in> set xs"
      then show ?thesis using Cons.IH[of w] ws by simp
    qed
  qed
qed

lemma str_join_Cons_Cons: "str_join sep ((c # x) # xs) = c # str_join sep (x # xs)"
  by (cases xs) auto

lemma str_split_join: "str_join [sep] (str_split s sep) = s"
proof (induction s)
  case Nil
  then show ?case by simp
next
  case (Cons c cs)
  obtain x xs where ws: "str_split cs sep = x # xs"
    using str_split_nonempty[of cs sep] by (cases "str_split cs sep") auto
  show ?case
  proof (cases "c = sep")
    case True
    with Cons ws show ?thesis by simp
  next
    case False
    with Cons ws show ?thesis by (simp add: Let_def str_join_Cons_Cons)
  qed
qed

lemma last_concat_sep: "xs \<noteq> [] \<Longrightarrow> last (concat (map (\<lambda>l. l @ [sep]) xs)) = sep"
  by (induction xs rule: rev_induct) auto

lemma str_split_last:
  "\<exists>dir. s = dir @ last (str_split s sep) \<and> sep \<notin> set (last (str_split s sep))
      \<and> (dir = [] \<or> last dir = sep)"
proof -
  let ?sp = "str_split s sep"
  have ne: "?sp \<noteq> []" by (rule str_split_nonempty)
  then have sp: "?sp = butlast ?sp @ [last ?sp]" by simp
  have "s = str_join [sep] (butlast ?sp @ [last ?sp])"
    using str_split_join[of sep s] sp by simp
  then have s: "s = concat (map (\<lambda>l. l @ [sep]) (butlast ?sp)) @ last ?sp"
    by (simp only: str_join_snoc)
  have nosep: "sep \<notin> set (last ?sp)"
    using ne by (intro str_split_no_sep[of _ s]) simp
  have d: "concat (map (\<lambda>l. l @ [sep]) (butlast ?sp)) = []
      \<or> last (concat (map (\<lambda>l. l @ [sep]) (butlast ?sp))) = sep"
    using last_concat_sep[of "butlast ?sp" sep] by (cases "butlast ?sp = []") auto
  show ?thesis
    by (rule exI[of _ "concat (map (\<lambda>l. l @ [sep]) (butlast ?sp))"]) (use s nosep d in blast)
qed


lemma filter_concat_blocks:
  assumes "\<And>x. length (filter P (f x)) = 1"
  shows "length (filter P (concat (map f xs))) = length xs"
  by (induction xs) (simp_all add: assms)

text \<open>
  Claim C2 (one block per thumbnail). The lines of the manifest are the seven header
  lines, then for each thumbnail key, in the order of the input list, the four lines
  of its block (the duration directive of T seconds, the tile directive with
  \<^verbatim>\<open>RESOLUTION=WxH,LAYOUT=1x1,DURATION=T\<close>, the relative reference to the thumbnail's
  filename, an empty line), then the end-of-list marker; the document is these lines
  joined by newlines; it has as many tile directives as there are keys; and the filename
  is the part of the key after its last slash.
\<close>

theorem manifest_one_block_per_thumbnail:
  "manifest_lines cfg media_path thumbnails resolution =
     [''#EXTM3U'',
      ''#EXT-X-TARGETDURATION:'' @ str_int (THUMBNAIL_INTERVAL cfg),
      ''#EXT-X-VERSION:7'',
      ''#EXT-X-MEDIA-SEQUENCE:1'',
      ''#EXT-X-PLAYLIST-TYPE:VOD'',
      ''#EXT-X-IMAGES-ONLY'',
      []]
     @ concat (map (\<lambda>thumbnail_key.
          [''#EXTINF:'' @ str_int (THUMBNAIL_INTERVAL cfg) @ ''.000,'',
           ''#EXT-X-TILES:RESOLUTION='' @ resolution @ '',LAYOUT=1x1,DURATION=''
             @ str_int (THUMBNAIL_INTERVAL cfg) @ ''.000'',
           (if str_in ''hls/'' media_path then ''../thumbs/'' else ''thumbs/'')
             @ thumbnail_name_of thumbnail_key,
           []]) thumbnails)
     @ [''#EXT-X-ENDLIST'']
   \<and> manifest_content cfg media_path thumbnails resolution =
       concat (map (\<lambda>l. l @ ''\<newline>'')
         [''#EXTM3U'',
          ''#EXT-X-TARGETDURATION:'' @ str_int (THUMBNAIL_INTERVAL cfg),
          ''#EXT-X-VERSION:7'',
          ''#EXT-X-MEDIA-SEQUENCE:1'',
          ''#EXT-X-PLAYLIST-TYPE:VOD'',
          ''#EXT-X-IMAGES-ONLY'',
          []])
       @ concat (map (\<lambda>thumbnail_key.
            ''#EXTINF:'' @ str_int (THUMBNAIL_INTERVAL cfg) @ ''.000,'' @ ''\<newline>''
            @ ''#EXT-X-TILES:RESOLUTION='' @ resolution @ '',LAYOUT=1x1,DURATION=''
                @ str_int (THUMBNAIL_INTERVAL cfg) @ ''.000'' @ ''\<newline>''
            @ (if str_in ''hls/'' media_path then ''../thumbs/'' else ''thumbs/'')
                @ thumbnail_name_of thumbnail_key @ ''\<newline>''
            @ ''\<newline>'') thumbnails)
       @ ''#EXT-X-ENDLIST''
   \<and> length (filter (prefix ''#EXT-X-TILES:'') (manifest_lines cfg media_path thumbnails resolution))
       = length thumbnails
   \<and> (\<exists>dir. thumbnail_key = dir @ thumbnail_name_of thumbnail_key
          \<and> CHR ''/'' \<notin> set (thumbnail_name_of thumbnail_key)
          \<and> (dir = [] \<or> last dir = CHR ''/''))"
proof (intro conjI)
  let ?hdr = "[''#EXTM3U'',
      ''#EXT-X-TARGETDURATION:'' @ str_int (THUMBNAIL_INTERVAL cfg),
      ''#EXT-X-VERSION:7'',
      ''#EXT-X-MEDIA-SEQUENCE:1'',
      ''#EXT-X-PLAYLIST-TYPE:VOD'',
      ''#EXT-X-IMAGES-ONLY'',
      []]"
  let ?f = "\<lambda>thumbnail_key.
          [''#EXTINF:'' @ str_int (THUMBNAIL_INTERVAL cfg) @ ''.000,'',
           ''#EXT-X-TILES:RESOLUTION='' @ resolution @ '',LAYOUT=1x1,DURATION=''
             @ str_int (THUMBNAIL_INTERVAL cfg) @ ''.000'',
           (if str_in ''hls/'' media_path then ''../thumbs/'' else ''thumbs/'')
             @ thumbnail_name_of thumbnail_key,
           []]"
  show lines: "manifest_lines cfg media_path thumbnails resolution
      = ?hdr @ concat (map ?f thumbnails) @ [''#EXT-X-ENDLIST'']"
    by (rule manifest_lines_closed)
  have "manifest_content cfg media_path thumbnails resolution
      = str_join ''\<newline>'' ((?hdr @ concat (map ?f thumbnails)) @ [''#EXT-X-ENDLIST''])"
    unfolding manifest_content_def lines by (simp only: append_assoc)
  also have "\<dots> = concat (map (\<lambda>l. l @ ''\<newline>'') (?hdr @ concat (map ?f thumbnails)))
      @ ''#EXT-X-ENDLIST''"
    by (rule str_join_snoc)
  also have "\<dots> = concat (map (\<lambda>l. l @ ''\<newline>'') ?hdr)
      @ concat (map (\<lambda>l. l @ ''\<newline>'') (concat (map ?f thumbnails))) @ ''#EXT-X-ENDLIST''"
    by (simp only: map_append concat_append append_assoc)
  also have "concat (map (\<lambda>l. l @ ''\<newline>'') (concat (map ?f thumbnails)))
      = concat (map (\<lambda>thumbnail_key.
            ''#EXTINF:'' @ str_int (THUMBNAIL_INTERVAL cfg) @ ''.000,'' @ ''\<newline>''
            @ ''#EXT-X-TILES:RESOLUTION='' @ resolution @ '',LAYOUT=1x1,DURATION=''
                @ str_int (THUMBNAIL_INTERVAL cfg) @ ''.000'' @ ''\<newline>''
            @ (if str_in ''hls/'' media_path then ''../thumbs/'' else ''thumbs/'')
                @ thumbnail_name_of thumbnail_key @ ''\<newline>''
            @ ''\<newline>'') thumbnails)"
    by (induction thumbnails) simp_all
  finally show "manifest_content cfg media_path thumbnails resolution =
       concat (map (\<lambda>l. l @ ''\<newline>'') ?hdr)
       @ concat (map (\<lambda>thumbnail_key.
            ''#EXTINF:'' @ str_int (THUMBNAIL_INTERVAL cfg) @ ''.000,'' @ ''\<newline>''
            @ ''#EXT-X-TILES:RESOLUTION='' @ resolution @ '',LAYOUT=1x1,DURATION=''
                @ str_int (THUMBNAIL_INTERVAL cfg) @ ''.000'' @ ''\<newline>''
            @ (if str_in ''hls/'' media_path then ''../thumbs/'' else ''thumbs/'')
                @ thumbnail_name_of thumbnail_key @ ''\<newline>''
            @ ''\<newline>'') thumbnails)
       @ ''#EXT-X-ENDLIST''" .
  have one: "\<And>k. length (filter (prefix ''#EXT-X-TILES:'') (?f k)) = 1"
    by simp
  have "length (filter (prefix ''#EXT-X-TILES:'') (concat (map ?f thumbnails))) = length thumbnails"
    using one by (rule filter_concat_blocks)
  then show "length (filter (prefix ''#EXT-X-TILES:'')
        (manifest_lines cfg media_path thumbnails resolution)) = length thumbnails"
    unfolding lines by simp
  show "\<exists>dir. thumbnail_key = dir @ thumbnail_name_of thumbnail_key
          \<and> CHR ''/'' \<notin> set (thumbnail_name_of thumbnail_key)
          \<and> (dir = [] \<or> last dir = CHR ''/'')"
    unfolding thumbnail_name_of_def by (rule str_split_last)
qed

theorem manifest_one_block_witness:
  "manifest_content default_config ''content/v1/''
     [''content/v1/thumbs/v1_small.00001.jpg'', ''content/v1/thumbs/v1_small.00002.jpg''] ''320x180''
   = ''#EXTM3U\<newline>#EXT-X-TARGETDURATION:10\<newline>#EXT-X-VERSION:7\<newline>#EXT-X-MEDIA-SEQUENCE:1\<newline>#EXT-X-PLAYLIST-TYPE:VOD\<newline>#EXT-X-IMAGES-ONLY\<newline>\<newline>#EXTINF:10.000,\<newline>#EXT-X-TILES:RESOLUTION=320x180,LAYOUT=1x1,DURATION=10.000\<newline>thumbs/v1_small.00001.jpg\<newline>\<newline>#EXTINF:10.000,\<newline>#EXT-X-TILES:RESOLUTION=320x180,LAYOUT=1x1,DURATION=10.000\<newline>thumbs/v1_small.00002.jpg\<newline>\<newline>#EXT-X-ENDLIST''"
proof -
  have n1: "thumbnail_name_of ''content/v1/thumbs/v1_small.00001.jpg'' = ''v1_small.00001.jpg''"
    by (simp add: thumbnail_name_of_def Let_def)
  have n2: "thumbnail_name_of ''content/v1/thumbs/v1_small.00002.jpg'' = ''v1_small.00002.jpg''"
    by (simp add: thumbnail_name_of_def Let_def)
  have t: "str_int (THUMBNAIL_INTERVAL default_config) = ''10''"
    by (simp add: default_config_def str_int_eval)
  have h: "\<not> str_in ''hls/'' ''content/v1/''" by (simp add: str_in_def)
  from manifest_one_block_per_thumbnail[of default_config "''content/v1/''"
      "[''content/v1/thumbs/v1_small.00001.jpg'', ''content/v1/thumbs/v1_small.00002.jpg'']"
      "''320x180''"]
  show ?thesis by (simp add: n1 n2 t h)
qed



section \<open>The Composer over both resolutions\<close>

lemma create_manifest_ok:
  assumes key: "playlist_key_of hls_url = Inr playlist_key"
    and fetched: "((objects w)((bucket, media_path @ manifest_filename_of resolution) \<mapsto>
                    \<lparr>obj_body = manifest_content cfg media_path thumbnails resolution,
                     obj_content_type = ''application/vnd.apple.mpegurl'', obj_public = True\<rparr>))
                  (bucket, playlist_key) = Some obj"
  shows "\<exists>w1 rest.
           create_manifest cfg bucket media_path hls_url thumbnails resolution bandwidth sfx w
             = (Inr (''Created '' @ manifest_filename_of resolution @ '' for '' @ resolution), w1)
         \<and> calls w1 = calls w @
               S3PutObject bucket (media_path @ manifest_filename_of resolution)
                  (manifest_content cfg media_path thumbnails resolution)
                  ''application/vnd.apple.mpegurl'' True # rest"
proof -
  let ?mk = "media_path @ manifest_filename_of resolution"
  let ?mc = "manifest_content cfg media_path thumbnails resolution"
  let ?ct = "''application/vnd.apple.mpegurl''"
  obtain wm where wm: "s3_put_object bucket ?mk ?mc ?ct True w = (Inr (), wm)"
    by (simp add: s3_put_object_simps)
  have owm: "objects wm = (objects w)((bucket, ?mk) \<mapsto>
                \<lparr>obj_body = ?mc, obj_content_type = ?ct, obj_public = True\<rparr>)"
    and cwm: "calls wm = calls w @ [S3PutObject bucket ?mk ?mc ?ct True]"
    using wm by (auto simp: s3_put_object_simps)
  have f1: "objects wm (bucket, playlist_key) = Some obj"
    using fetched owm by simp
  have "\<exists>w2 rest. update_main_playlist bucket media_path hls_url (manifest_filename_of resolution)
            resolution bandwidth wm = (Inr (), w2) \<and> calls w2 = calls wm @ rest"
  proof (cases "str_in (manifest_filename_of resolution) (obj_body obj)")
    case True
    from update_main_playlist_already[OF key f1 True, of media_path resolution bandwidth]
    show ?thesis by (simp add: log_info_def)
  next
    case False
    from update_main_playlist_writes[OF key f1 False, of media_path resolution bandwidth]
    show ?thesis by auto
  qed
  then obtain w2 rest where m: "update_main_playlist bucket media_path hls_url
        (manifest_filename_of resolution) resolution bandwidth wm = (Inr (), w2)"
      and c2: "calls w2 = calls wm @ rest"
    by blast
  have r: "create_manifest cfg bucket media_path hls_url thumbnails resolution bandwidth sfx w
      = (Inr (''Created '' @ manifest_filename_of resolution @ '' for '' @ resolution),
         log_info ''Manifest created'' w2)"
    by (simp add: create_manifest_def create_manifest_try_def Let_def wm m)
  have "calls (log_info ''Manifest created'' w2)
      = calls w @ S3PutObject bucket ?mk ?mc ?ct True # rest"
    by (simp add: log_info_def c2 cwm)
  with r show ?thesis by blast
qed

lemma default_resolutions:
  "THUMBNAIL_SMALL_RESOLUTION default_config = ''320x180''"
  "THUMBNAIL_BIG_RESOLUTION default_config = ''640x360''"
  "THUMBNAIL_SMALL_RESOLUTION wide_config = ''400x180''"
  by (simp_all add: THUMBNAIL_SMALL_RESOLUTION_def THUMBNAIL_BIG_RESOLUTION_def default_config_def
      wide_config_def valid_config_def str_int_eval)

text \<open>
  Claim C5 (empty lists are skipped). With both lists empty the Composer touches neither
  the store nor any service and returns the empty status map. With one list empty it does
  exactly what the processing of the other resolution does, and the status map has no
  entry for the resolution whose list is empty.
\<close>

theorem empty_resolution_skipped:
  "create_manifests_and_update_playlist cfg bucket media_path hls_url [] [] w
     = (Inr Map.empty, log_info ''Manifests created successfully'' (log_info ''Creating manifests'' w))
   \<and> (big_thumbnails \<noteq> [] \<longrightarrow>
        create_manifests_and_update_playlist cfg bucket media_path hls_url [] big_thumbnails w
          = (case create_manifest cfg bucket media_path hls_url big_thumbnails
                    (THUMBNAIL_BIG_RESOLUTION cfg) (THUMBNAIL_BIG_BANDWIDTH cfg) ''big''
                    (log_info ''Creating manifests'' w) of
               (Inl e, w1) \<Rightarrow>
                 (Inl (ManifestGenerationError
                         (''Failed to create manifests for '' @ media_path @ '': '' @ err_str e)),
                  log_error ''Manifest creation failed'' w1)
             | (Inr r, w1) \<Rightarrow>
                 (Inr [''big'' \<mapsto> r], log_info ''Manifests created successfully'' w1)))
   \<and> (small_thumbnails \<noteq> [] \<longrightarrow>
        create_manifests_and_update_playlist cfg bucket media_path hls_url small_thumbnails [] w
          = (case create_manifest cfg bucket media_path hls_url small_thumbnails
                    (THUMBNAIL_SMALL_RESOLUTION cfg) (THUMBNAIL_SMALL_BANDWIDTH cfg) ''small''
                    (log_info ''Creating manifests'' w) of
               (Inl e, w1) \<Rightarrow>
                 (Inl (ManifestGenerationError
                         (''Failed to create manifests for '' @ media_path @ '': '' @ err_str e)),
                  log_error ''Manifest creation failed'' w1)
             | (Inr r, w1) \<Rightarrow>
                 (Inr [''small'' \<mapsto> r], log_info ''Manifests created successfully'' w1)))
   \<and> (\<forall>results w'.
        create_manifests_and_update_playlist cfg bucket media_path hls_url [] big_thumbnails w
          = (Inr results, w') \<longrightarrow> results ''small'' = None)
   \<and> (\<forall>results w'.
        create_manifests_and_update_playlist cfg bucket media_path hls_url small_thumbnails [] w
          = (Inr results, w') \<longrightarrow> results ''big'' = None)
   \<and> objects (snd (create_manifests_and_update_playlist cfg bucket media_path hls_url [] [] w))
       = objects w
   \<and> calls (snd (create_manifests_and_update_playlist cfg bucket media_path hls_url [] [] w))
       = calls w"
proof -
  have both: "create_manifests_and_update_playlist cfg bucket media_path hls_url [] [] w
     = (Inr Map.empty, log_info ''Manifests created successfully'' (log_info ''Creating manifests'' w))"
    by (simp add: create_manifests_and_update_playlist_def create_manifests_try_def Let_def)
  have big: "create_manifests_and_update_playlist cfg bucket media_path hls_url [] bs w
          = (case create_manifest cfg bucket media_path hls_url bs
                    (THUMBNAIL_BIG_RESOLUTION cfg) (THUMBNAIL_BIG_BANDWIDTH cfg) ''big''
                    (log_info ''Creating manifests'' w) of
               (Inl e, w1) \<Rightarrow>
                 (Inl (ManifestGenerationError
                         (''Failed to create manifests for '' @ media_path @ '': '' @ err_str e)),
                  log_error ''Manifest creation failed'' w1)
             | (Inr r, w1) \<Rightarrow>
                 (Inr [''big'' \<mapsto> r], log_info ''Manifests created successfully'' w1))"
    if "bs \<noteq> []" for bs
    using that
    by (simp add: create_manifests_and_update_playlist_def create_manifests_try_def Let_def
        split: prod.splits sum.splits)
  have small: "create_manifests_and_update_playlist cfg bucket media_path hls_url ss [] w
          = (case create_manifest cfg bucket media_path hls_url ss
                    (THUMBNAIL_SMALL_RESOLUTION cfg) (THUMBNAIL_SMALL_BANDWIDTH cfg) ''small''
                    (log_info ''Creating manifests'' w) of
               (Inl e, w1) \<Rightarrow>
                 (Inl (ManifestGenerationError
                         (''Failed to create manifests for '' @ media_path @ '': '' @ err_str e)),
                  log_error ''Manifest creation failed'' w1)
             | (Inr r, w1) \<Rightarrow>
                 (Inr [''small'' \<mapsto> r], log_info ''Manifests created successfully'' w1))"
    if "ss \<noteq> []" for ss
    using that
    by (simp add: create_manifests_and_update_playlist_def create_manifests_try_def Let_def
        split: prod.splits sum.splits)
  have nosmall: "results ''small'' = None"
    if "create_manifests_and_update_playlist cfg bucket media_path hls_url [] big_thumbnails w
          = (Inr results, w')" for results w'
  proof (cases "big_thumbnails = []")
    case True
    with that both show ?thesis by auto
  next
    case False
    from that big[OF False] show ?thesis
      by (auto split: prod.splits sum.splits)
  qed
  have nobig: "results ''big'' = None"
    if "create_manifests_and_update_playlist cfg bucket media_path hls_url small_thumbnails [] w
          = (Inr results, w')" for results w'
  proof (cases "small_thumbnails = []")
    case True
    with that both show ?thesis by auto
  next
    case False
    from that small[OF False] show ?thesis
      by (auto split: prod.splits sum.splits)
  qed
  have fr: "objects (snd (create_manifests_and_update_playlist cfg bucket media_path hls_url [] [] w))
       = objects w"
     "calls (snd (create_manifests_and_update_playlist cfg bucket media_path hls_url [] [] w))
       = calls w"
    by (simp_all add: both log_info_def)
  show ?thesis using both big small nosmall nobig fr by blast
qed

theorem empty_resolution_skipped_witness:
  "\<exists>w1. create_manifests_and_update_playlist default_config ''media-bucket'' ''content/v1/''
            ''s3://media-bucket/content/v1/play.m3u8'' [] [''content/v1/thumbs/v1_big.00001.jpg'']
            (world_with ''#EXTM3U\<newline>'')
          = (Inr [''big'' \<mapsto> ''Created thumbs_640x360.m3u8 for 640x360''], w1)"
proof -
  let ?w0 = "log_info ''Creating manifests'' (world_with ''#EXTM3U\<newline>'')"
  have ne: "[''content/v1/thumbs/v1_big.00001.jpg''] \<noteq> []" by simp
  have f: "((objects ?w0)((''media-bucket'', ''content/v1/'' @ manifest_filename_of ''640x360'') \<mapsto>
                    \<lparr>obj_body = manifest_content default_config ''content/v1/''
                                  [''content/v1/thumbs/v1_big.00001.jpg''] ''640x360'',
                     obj_content_type = ''application/vnd.apple.mpegurl'', obj_public = True\<rparr>))
                  (''media-bucket'', ''content/v1/play.m3u8'') = Some (playlist_obj ''#EXTM3U\<newline>'')"
    by (simp add: world_with_def manifest_filename_of_def log_info_def)
  from create_manifest_ok[OF example_key f, of "THUMBNAIL_BIG_BANDWIDTH default_config" "''big''"]
  obtain w1 where c: "create_manifest default_config ''media-bucket'' ''content/v1/''
        ''s3://media-bucket/content/v1/play.m3u8'' [''content/v1/thumbs/v1_big.00001.jpg'']
        ''640x360'' (THUMBNAIL_BIG_BANDWIDTH default_config) ''big'' ?w0
      = (Inr (''Created '' @ manifest_filename_of ''640x360'' @ '' for '' @ ''640x360''), w1)"
    by blast
  from empty_resolution_skipped[of default_config "''media-bucket''" "''content/v1/''"
      "''s3://media-bucket/content/v1/play.m3u8''" "world_with ''#EXTM3U\<newline>''"
      "[''content/v1/thumbs/v1_big.00001.jpg'']" "[]"] ne
  have "create_manifests_and_update_playlist default_config ''media-bucket'' ''content/v1/''
            ''s3://media-bucket/content/v1/play.m3u8'' [] [''content/v1/thumbs/v1_big.00001.jpg'']
            (world_with ''#EXTM3U\<newline>'')
      = (case create_manifest default_config ''media-bucket'' ''content/v1/''
                ''s3://media-bucket/content/v1/play.m3u8'' [''content/v1/thumbs/v1_big.00001.jpg'']
                (THUMBNAIL_BIG_RESOLUTION default_config) (THUMBNAIL_BIG_BANDWIDTH default_config)
                ''big'' ?w0 of
               (Inl e, w1) \<Rightarrow>
                 (Inl (ManifestGenerationError
                         (''Failed to create manifests for '' @ ''content/v1/'' @ '': '' @ err_str e)),
                  log_error ''Manifest creation failed'' w1)
             | (Inr r, w1) \<Rightarrow>
                 (Inr [''big'' \<mapsto> r], log_info ''Manifests created successfully'' w1))"
    by blast
  then show ?thesis
    by (simp add: default_resolutions c manifest_filename_of_def)
qed

section \<open>The invalidation message\<close>


section \<open>The Cache Invalidator\<close>

text \<open>
  Claim C8 (empty path list), as amended. When a distribution id is given or configured,
  a call with an empty path list makes no call to the CDN, returns no identifier and logs
  one warning.
\<close>

theorem invalidate_empty_paths_noop:
  assumes "truthy (py_or distribution_id (AWS_CLOUDFRONT_DISTRIBUTION_ID cfg))"
  shows "invalidate_cache en cfg [] distribution_id w
           = (Inr None, log_warning ''No paths provided for invalidation'' w)
       \<and> calls (snd (invalidate_cache en cfg [] distribution_id w)) = calls w
       \<and> objects (snd (invalidate_cache en cfg [] distribution_id w)) = objects w
       \<and> logs (snd (invalidate_cache en cfg [] distribution_id w))
           = logs w @ [(''WARNING'', ''No paths provided for invalidation'')]"
proof -
  from assms obtain d where d: "py_or distribution_id (AWS_CLOUDFRONT_DISTRIBUTION_ID cfg) = Some d"
      and ne: "d \<noteq> []"
    by (auto simp: truthy_def split: option.splits)
  have r: "invalidate_cache en cfg [] distribution_id w
           = (Inr None, log_warning ''No paths provided for invalidation'' w)"
    by (simp add: invalidate_cache_def invalidate_cache_try_def d ne)
  show ?thesis by (simp add: r log_warning_def)
qed

theorem invalidate_empty_paths_noop_witness:
  "invalidate_cache example_env valid_config [] None (world_with [])
     = (Inr None, log_warning ''No paths provided for invalidation'' (world_with []))"
proof -
  have h: "truthy (py_or None (AWS_CLOUDFRONT_DISTRIBUTION_ID valid_config))"
    by (simp add: truthy_def py_or_def valid_config_def default_config_def)
  from invalidate_empty_paths_noop[OF h, of example_env "world_with []"]
  show ?thesis by simp
qed

text \<open>
  The claim as first stated covers every call; without a distribution id the call with an
  empty path list fails, since the id is checked first.
\<close>

theorem invalidate_empty_paths_counterexample:
  "fst (invalidate_cache example_env default_config [] None (world_with []))
     = Inl (CDNInvalidationError
              ''Failed to invalidate cache: CloudFront distribution ID not configured'')"
  by (simp add: invalidate_cache_def invalidate_cache_try_def py_or_def truthy_def default_config_def)

section \<open>The trigger layer\<close>




section \<open>The Thumbnail Extractor\<close>

lemma upload_no_process:
  "filter is_RunProcess
     (calls (snd (upload_thumbnails en cfg bucket thumbnails_folder output_dir files names keys w)))
   = filter is_RunProcess (calls w)"
proof (induction names arbitrary: keys w)
  case Nil
  then show ?case by simp
next
  case (Cons filename rest)
  show ?case
  proof (cases "str_endswith filename (''.'' @ THUMBNAIL_FORMAT cfg)")
    case False
    then show ?thesis using Cons.IH by simp
  next
    case True
    show ?thesis
    proof (cases "s3_upload_error en bucket (thumbnails_folder @ filename)")
      case (Some m)
      then show ?thesis using True
        by (simp add: s3_upload_file_def Let_def log_info_def)
    next
      case None
      then show ?thesis using True
        by (simp add: s3_upload_file_def Let_def Cons.IH log_info_def log_debug_def)
    qed
  qed
qed

lemma resolution_one_process:
  "filter is_RunProcess
     (calls (snd (generate_resolution_thumbnails en cfg hls_url media_key output_dir bucket media_path
                    width height sfx w)))
   = filter is_RunProcess (calls w)
       @ [RunProcess (ffmpeg_cmd cfg hls_url media_key output_dir width height sfx)]"
proof -
  let ?cmd = "ffmpeg_cmd cfg hls_url media_key output_dir width height sfx"
  let ?w2 = "(log_info ''Running FFmpeg'' w)\<lparr>calls := calls (log_info ''Running FFmpeg'' w) @ [RunProcess ?cmd]\<rparr>"
  have up: "filter is_RunProcess
     (calls (snd (upload_thumbnails en cfg bucket tf output_dir files names [] ?w2)))
     = filter is_RunProcess (calls w) @ [RunProcess ?cmd]" for tf files names
    by (simp add: upload_no_process log_info_def)
  show ?thesis
  proof (cases "run_process en ?cmd")
    case (SpawnError m)
    then show ?thesis
      by (simp add: generate_resolution_thumbnails_def generate_resolution_thumbnails_try_def Let_def
          log_info_def log_error_def)
  next
    case (Exited returncode stderr files)
    show ?thesis
    proof (cases "returncode = 0")
      case True
      let ?u = "upload_thumbnails en cfg bucket (media_path @ THUMBNAILS_FOLDER cfg @ ''/'') output_dir
                  files (sort (map fst files)) [] ?w2"
      have "filter is_RunProcess (calls (snd ?u)) = filter is_RunProcess (calls w) @ [RunProcess ?cmd]"
        by (rule up)
      then show ?thesis using Exited True
        by (cases ?u; cases "fst ?u")
           (simp_all add: generate_resolution_thumbnails_def generate_resolution_thumbnails_try_def
              Let_def log_info_def log_error_def)
    next
      case False
      then show ?thesis using Exited
        by (simp add: generate_resolution_thumbnails_def generate_resolution_thumbnails_try_def Let_def
            log_info_def log_error_def split: sum.splits)
    qed
  qed
qed

lemma download_no_process:
  "filter is_RunProcess (calls (snd (s3_download_file bucket key file_path w)))
     = filter is_RunProcess (calls w)"
  by (simp add: s3_download_file_def Let_def log_info_def split: option.splits)

lemma resolution_failure:
  assumes "run_process en (ffmpeg_cmd cfg hls_url media_key output_dir width height sfx)
             = Exited returncode stderr files"
    and "returncode \<noteq> 0"
    and "decode_utf8 en stderr = Inr error_msg"
  shows "generate_resolution_thumbnails en cfg hls_url media_key output_dir bucket media_path
           width height sfx w
         = (Inl (FFMpegError (''FFmpeg failed for '' @ media_key @ '': ''
                   @ (if stderr \<noteq> [] then error_msg else ''Unknown FFmpeg error''))),
            log_error ''Resolution thumbnail generation failed''
              ((log_info ''Running FFmpeg'' w)
                 \<lparr>calls := calls w
                      @ [RunProcess (ffmpeg_cmd cfg hls_url media_key output_dir width height sfx)]\<rparr>))"
  using assms
  by (simp add: generate_resolution_thumbnails_def generate_resolution_thumbnails_try_def Let_def
      log_info_def)

lemma at_most_two_launches_in:
  "length (filter is_RunProcess
             (calls (snd (generate_thumbnails_in en cfg tmpdir hls_url media_key bucket media_path w))))
     \<le> length (filter is_RunProcess (calls w)) + 2"
proof -
  let ?n = "length (filter is_RunProcess (calls w))"
  let ?w0 = "log_info ''Starting thumbnail generation'' w"
  have c0: "filter is_RunProcess (calls ?w0) = filter is_RunProcess (calls w)"
    by (simp add: log_info_def)
  have log_e: "calls (log_error m x) = calls x" for m x by (simp add: log_error_def)
  have log_i: "calls (log_info m x) = calls x" for m x by (simp add: log_info_def)
  have "length (filter is_RunProcess
               (calls (snd (generate_thumbnails_try en cfg tmpdir hls_url media_key bucket media_path w))))
       \<le> ?n + 2"
  proof (cases "playlist_key_of hls_url")
    case (Inl e)
    then show ?thesis by (simp add: generate_thumbnails_try_def Let_def c0)
  next
    case (Inr key)
    let ?d = "s3_download_file bucket key (os_path_join tmpdir ''manifest.m3u8'') ?w0"
    have cd: "filter is_RunProcess (calls (snd ?d)) = filter is_RunProcess (calls w)"
      by (simp add: download_no_process c0)
    show ?thesis
    proof (cases "fst ?d")
      case (Inl e)
      then show ?thesis using Inr cd
        by (cases ?d) (simp add: generate_thumbnails_try_def Let_def)
    next
      case dok: (Inr u)
      let ?s = "generate_resolution_thumbnails en cfg hls_url media_key
                  (os_path_join tmpdir ''small'') bucket media_path
                  (THUMBNAIL_WIDTH cfg) (THUMBNAIL_HEIGHT cfg) THUMBNAIL_SMALL_SUFFIX (snd ?d)"
      have cs: "length (filter is_RunProcess (calls (snd ?s))) = ?n + 1"
        by (simp add: resolution_one_process cd)
      show ?thesis
      proof (cases "fst ?s")
        case (Inl e)
        then show ?thesis using Inr dok cs
          by (cases ?d; cases ?s) (simp add: generate_thumbnails_try_def Let_def)
      next
        case sok: (Inr small)
        let ?b = "generate_resolution_thumbnails en cfg hls_url media_key
                  (os_path_join tmpdir ''big'') bucket media_path
                  (THUMBNAIL_BIG_WIDTH cfg) (THUMBNAIL_BIG_HEIGHT cfg) THUMBNAIL_BIG_SUFFIX (snd ?s)"
        have cb: "length (filter is_RunProcess (calls (snd ?b))) = ?n + 2"
          using cs by (simp add: resolution_one_process)
        show ?thesis using Inr dok sok cb
          by (cases ?d; cases ?s; cases ?b; cases "fst ?b")
             (simp_all add: generate_thumbnails_try_def Let_def log_i)
      qed
    qed
  qed
  then show ?thesis
    by (cases "generate_thumbnails_try en cfg tmpdir hls_url media_key bucket media_path w";
        cases "fst (generate_thumbnails_try en cfg tmpdir hls_url media_key bucket media_path w)")
       (simp_all add: generate_thumbnails_in_def log_e)
qed

lemma at_most_two_launches:
  "length (filter is_RunProcess
             (calls (snd (generate_thumbnails en cfg hls_url media_key bucket media_path w))))
     \<le> length (filter is_RunProcess (calls w)) + 2"
proof (cases "mkdtemp en")
  case (Inl m)
  then show ?thesis by (simp add: generate_thumbnails_def)
next
  case (Inr tmpdir)
  have "snd (generate_thumbnails en cfg hls_url media_key bucket media_path w)
      = snd (generate_thumbnails_in en cfg tmpdir hls_url media_key bucket media_path w)"
    using Inr by (simp add: generate_thumbnails_def split: prod.splits option.splits)
  then show ?thesis
    using at_most_two_launches_in[of en cfg tmpdir hls_url media_key bucket media_path w] by simp
qed

lemma failure_inside_directory_is_FFMpegError:
  assumes "generate_thumbnails_in en cfg tmpdir hls_url media_key bucket media_path w = (Inl e, w')"
  shows "\<exists>m. e = FFMpegError (''Failed to generate thumbnails for '' @ media_key @ '': '' @ m)"
  using assms by (auto simp: generate_thumbnails_in_def split: prod.splits sum.splits)

text \<open>
  Claim C7 (sampler failure). A failing sampler is to surface as an \<^verbatim>\<open>FFMpegError\<close> that
  carries the captured diagnostic, and every failure of \<^verbatim>\<open>generate_thumbnails\<close> as an
  \<^verbatim>\<open>FFMpegError\<close>. When the sampler exits with code 1 and its standard error is the byte
  \<^verbatim>\<open>0xff\<close>, the resolution step raises \<^verbatim>\<open>UnicodeDecodeError\<close>, and the
  \<^verbatim>\<open>FFMpegError\<close> that reaches the caller carries the codec's message, in which the
  diagnostic does not occur. When the temporary directory cannot be made, the caller gets
  the \<^verbatim>\<open>OSError\<close> itself.
\<close>

theorem sampler_failure_loses_diagnostic:
  "fst (generate_resolution_thumbnails undecodable_env valid_config
          ''s3://media-bucket/content/v1/play.m3u8'' ''v1'' ''/tmp/tmpa1b2c3/small''
          ''media-bucket'' ''content/v1/'' 320 180 ''_small'' (world_with ''#EXTM3U\<newline>''))
     = Inl (UnicodeDecodeError invalid_start_byte)
   \<and> fst (generate_thumbnails undecodable_env valid_config
            ''s3://media-bucket/content/v1/play.m3u8'' ''v1'' ''media-bucket'' ''content/v1/''
            (world_with ''#EXTM3U\<newline>''))
     = Inl (FFMpegError (''Failed to generate thumbnails for v1: '' @ invalid_start_byte))
   \<and> \<not> str_in [CHR 0xFF] (''Failed to generate thumbnails for v1: '' @ invalid_start_byte)
   \<and> fst (generate_thumbnails no_tmpdir_env valid_config
            ''s3://media-bucket/content/v1/play.m3u8'' ''v1'' ''media-bucket'' ''content/v1/''
            (world_with ''#EXTM3U\<newline>''))
     = Inl (OSError ''[Errno 28] No space left on device'')"
proof -
  let ?w = "world_with ''#EXTM3U\<newline>''"
  have res: "fst (generate_resolution_thumbnails undecodable_env valid_config
          ''s3://media-bucket/content/v1/play.m3u8'' ''v1'' output_dir
          ''media-bucket'' ''content/v1/'' width height sfx w)
     = Inl (UnicodeDecodeError invalid_start_byte)" for output_dir width height sfx w
    by (simp add: generate_resolution_thumbnails_def generate_resolution_thumbnails_try_def Let_def
        undecodable_env_def example_env_def)
  have dl: "fst (s3_download_file ''media-bucket'' ''content/v1/play.m3u8'' path
                  (log_info ''Starting thumbnail generation'' ?w)) = Inr ()" for path
    by (simp add: s3_download_file_def Let_def log_info_def world_with_def)
  obtain wd where d: "s3_download_file ''media-bucket'' ''content/v1/play.m3u8''
        (os_path_join ''/tmp/tmpa1b2c3'' ''manifest.m3u8'')
        (log_info ''Starting thumbnail generation'' ?w) = (Inr (), wd)"
    using dl[of "os_path_join ''/tmp/tmpa1b2c3'' ''manifest.m3u8''"]
    by (metis prod.collapse)
  obtain w2 where r: "generate_resolution_thumbnails undecodable_env valid_config
        ''s3://media-bucket/content/v1/play.m3u8'' ''v1'' (os_path_join ''/tmp/tmpa1b2c3'' ''small'')
        ''media-bucket'' ''content/v1/'' (THUMBNAIL_WIDTH valid_config)
        (THUMBNAIL_HEIGHT valid_config) THUMBNAIL_SMALL_SUFFIX wd
      = (Inl (UnicodeDecodeError invalid_start_byte), w2)"
    using res[of "os_path_join ''/tmp/tmpa1b2c3'' ''small''" "THUMBNAIL_WIDTH valid_config"
          "THUMBNAIL_HEIGHT valid_config" THUMBNAIL_SMALL_SUFFIX wd]
    by (metis prod.collapse)
  have t: "generate_thumbnails_try undecodable_env valid_config ''/tmp/tmpa1b2c3''
            ''s3://media-bucket/content/v1/play.m3u8'' ''v1'' ''media-bucket'' ''content/v1/'' ?w
      = (Inl (UnicodeDecodeError invalid_start_byte), w2)"
    by (simp only: generate_thumbnails_try_def Let_def example_key d r sum.case prod.case)
  have inside: "fst (generate_thumbnails_in undecodable_env valid_config ''/tmp/tmpa1b2c3''
            ''s3://media-bucket/content/v1/play.m3u8'' ''v1'' ''media-bucket'' ''content/v1/'' ?w)
     = Inl (FFMpegError (''Failed to generate thumbnails for v1: '' @ invalid_start_byte))"
    by (simp add: generate_thumbnails_in_def t)
  have a: "fst (generate_thumbnails undecodable_env valid_config
            ''s3://media-bucket/content/v1/play.m3u8'' ''v1'' ''media-bucket'' ''content/v1/'' ?w)
     = Inl (FFMpegError (''Failed to generate thumbnails for v1: '' @ invalid_start_byte))"
    using inside
    by (simp add: generate_thumbnails_def undecodable_env_def example_env_def split: prod.splits)
  have b: "\<not> str_in [CHR 0xFF] (''Failed to generate thumbnails for v1: '' @ invalid_start_byte)"
    by (simp add: str_in_def invalid_start_byte_def sq_def)
  have c: "fst (generate_thumbnails no_tmpdir_env valid_config
            ''s3://media-bucket/content/v1/play.m3u8'' ''v1'' ''media-bucket'' ''content/v1/'' ?w)
     = Inl (OSError ''[Errno 28] No space left on device'')"
    by (simp add: generate_thumbnails_def no_tmpdir_env_def example_env_def)
  show ?thesis using res a b c by blast
qed

end
